theory Spec2Isabelle
  imports Complex_Main "HOL-Library.AList"
begin

section \<open>JavaScript values\<close>

text \<open>
  The handlers work on dynamically typed values: request bodies, the response of the
  generative-AI client, stored documents. They are modelled by one datatype of values.
  An object is the list of its own enumerable properties in enumeration order (where a
  key occurs twice the first occurrence is the property). An array carries its elements
  and, separately, the named properties that JavaScript allows an assignment to add to
  it. Numbers are the finite ones (a rational stands for the parsed number; \<open>NaN\<close> and
  the infinities do not occur in parsed JSON text of ordinary size).
\<close>

datatype json =
    JUndefined
  | JNull
  | JBool bool
  | JNum rat
  | JStr string
  | JArr "json list" "(string \<times> json) list"
  | JObj "(string \<times> json) list"

text \<open>
  What a \<^verbatim>\<open>throw\<close> carries: a \<^verbatim>\<open>TypeError\<close> raised by the language itself, any other
  instance of \<^verbatim>\<open>Error\<close> with its message, or a value that is not an \<^verbatim>\<open>Error\<close>.
  The message of a language-raised \<^verbatim>\<open>TypeError\<close> is the engine's; the model keeps
  V8's wording without the operand names.
\<close>

datatype thrown =
    TypeError string
  | Error string
  | NonError json

text \<open>ToBoolean: the test of \<^verbatim>\<open>if (x)\<close>, \<^verbatim>\<open>!x\<close>, \<^verbatim>\<open>x && y\<close> and \<^verbatim>\<open>x || y\<close>.\<close>

fun truthy :: "json \<Rightarrow> bool" where
  "truthy JUndefined = False"
| "truthy JNull = False"
| "truthy (JBool b) = b"
| "truthy (JNum n) = (n \<noteq> 0)"
| "truthy (JStr s) = (s \<noteq> [])"
| "truthy (JArr xs ps) = True"
| "truthy (JObj kvs) = True"

fun nullish :: "json \<Rightarrow> bool" where
  "nullish JUndefined = True"
| "nullish JNull = True"
| "nullish v = False"

text \<open>The own named properties of a value; a primitive has none.\<close>

fun own :: "json \<Rightarrow> (string \<times> json) list" where
  "own (JObj kvs) = kvs"
| "own (JArr xs ps) = ps"
| "own v = []"

text \<open>
  \<^verbatim>\<open>v.k\<close> on a value that is neither \<^verbatim>\<open>null\<close> nor \<^verbatim>\<open>undefined\<close>, for the property
  names the handlers use (none of them is defined on a built-in prototype): the own
  property, or \<^verbatim>\<open>undefined\<close>.
\<close>

definition property :: "json \<Rightarrow> string \<Rightarrow> json" where
  "property v k = (case map_of (own v) k of None \<Rightarrow> JUndefined | Some x \<Rightarrow> x)"

text \<open>\<^verbatim>\<open>v.k\<close> in general: reading a property of \<^verbatim>\<open>null\<close> or \<^verbatim>\<open>undefined\<close> throws.\<close>

definition get_prop :: "json \<Rightarrow> string \<Rightarrow> thrown + json" where
  "get_prop v k =
     (if nullish v then Inl (TypeError ''Cannot read properties of undefined or null'')
      else Inr (property v k))"

text \<open>\<^verbatim>\<open>v?.k\<close>, as the compiler spells it out:
  \<^verbatim>\<open>(_a = v) === null || _a === void 0 ? void 0 : _a.k\<close>.\<close>

definition opt_prop :: "json \<Rightarrow> string \<Rightarrow> json" where
  "opt_prop v k = (if nullish v then JUndefined else property v k)"

text \<open>\<^verbatim>\<open>o.k = x\<close> on an object: an existing property keeps its place, a new one is
  appended. \<^verbatim>\<open>delete o.k\<close> removes the property.\<close>

definition set_field :: "string \<Rightarrow> json \<Rightarrow> (string \<times> json) list \<Rightarrow> (string \<times> json) list" where
  "set_field k x kvs = AList.update k x kvs"

definition delete_field :: "string \<Rightarrow> (string \<times> json) list \<Rightarrow> (string \<times> json) list" where
  "delete_field k kvs = AList.delete k kvs"

section \<open>Subscription gate (dist/middlewares/subscription.middleware.js)\<close>

text \<open>
  Modelled from the spec: the schema of the subscription model
  (\<^verbatim>\<open>models/subscription.model\<close>) is not among the sources. The spec gives a
  subscription its user, a plan tier, an active flag, start and end timestamps and the two
  generation counters; these are the fields the middleware reads and writes. The plan is
  the string the middleware compares, dates are milliseconds since the epoch, counters
  are integers.
\<close>

record subscription =
  user :: json
  plan :: string
  startDate :: int
  endDate :: int
  active :: bool
  workoutPlansGenerated :: int
  mealPlansGenerated :: int

text \<open>The calls the middleware makes on the subscription model, with their arguments.\<close>

datatype db_call =
    FindOne json int
  | Create subscription
  | Save nat subscription

text \<open>
  The store: the collection as the list of its documents in natural order, a document
  being identified by its position, and the calls made on the model so far.
  \<^verbatim>\<open>create\<close> stores and returns the document it is given; a refusal of the schema or
  of the store is a call that rejects.
\<close>

record db =
  docs :: "subscription list"
  calls :: "db_call list"

text \<open>
  The three readings of the clock a request makes, in the order the source evaluates
  \<^verbatim>\<open>new Date()\<close>: in the query filter, for \<^verbatim>\<open>endDate\<close>, and for \<^verbatim>\<open>startDate\<close>.
\<close>

record clock =
  t_query :: int
  t_end :: int
  t_start :: int

text \<open>What a middleware does with the request: \<^verbatim>\<open>next()\<close>, or
  \<^verbatim>\<open>res.status(s).json(body)\<close>.\<close>

datatype outcome = Next | Respond nat json

text \<open>The filter \<^verbatim>\<open>{user: id, active: true, endDate: {$gte: now}}\<close>.\<close>

definition matches :: "json \<Rightarrow> int \<Rightarrow> subscription \<Rightarrow> bool" where
  "matches uid now s = (user s = uid \<and> active s \<and> now \<le> endDate s)"

text \<open>The first matching document from position \<open>i\<close> on, with its position.\<close>

fun first_match :: "json \<Rightarrow> int \<Rightarrow> nat \<Rightarrow> subscription list \<Rightarrow> (nat \<times> subscription) option" where
  "first_match uid now i [] = None"
| "first_match uid now i (s # ss) =
     (if matches uid now s then Some (i, s) else first_match uid now (Suc i) ss)"

text \<open>
  The three model calls. Each is recorded; \<open>faults c\<close> says that call \<open>c\<close> rejects
  (the store is unreachable, or the schema refuses the document), which the
  middleware's \<^verbatim>\<open>catch\<close> receives.
\<close>

definition findOne :: "(db_call \<Rightarrow> bool) \<Rightarrow> json \<Rightarrow> int \<Rightarrow> db
    \<Rightarrow> (thrown + (nat \<times> subscription) option) \<times> db" where
  "findOne faults uid now d =
     (let c = FindOne uid now; d' = d\<lparr>calls := calls d @ [c]\<rparr>
      in if faults c then (Inl (Error ''store''), d')
         else (Inr (first_match uid now 0 (docs d)), d'))"

definition create :: "(db_call \<Rightarrow> bool) \<Rightarrow> subscription \<Rightarrow> db
    \<Rightarrow> (thrown + (nat \<times> subscription)) \<times> db" where
  "create faults s d =
     (let c = Create s; d' = d\<lparr>calls := calls d @ [c]\<rparr>
      in if faults c then (Inl (Error ''store''), d')
         else (Inr (length (docs d), s), d'\<lparr>docs := docs d @ [s]\<rparr>))"

definition save :: "(db_call \<Rightarrow> bool) \<Rightarrow> nat \<Rightarrow> subscription \<Rightarrow> db \<Rightarrow> (thrown + unit) \<times> db" where
  "save faults i s d =
     (let c = Save i s; d' = d\<lparr>calls := calls d @ [c]\<rparr>
      in if faults c then (Inl (Error ''store''), d')
         else (Inr (), d'\<lparr>docs := (docs d)[i := s]\<rparr>))"

definition not_authorized :: json where
  "not_authorized =
     JObj [(''success'', JBool False), (''message'', JStr ''Not authorized, user not found'')]"

definition workout_limit_reached :: json where
  "workout_limit_reached =
     JObj [(''success'', JBool False),
           (''message'', JStr ''Free subscription limit reached. Please upgrade to premium to generate more workout plans.''),
           (''subscriptionRequired'', JBool True)]"

definition meal_limit_reached :: json where
  "meal_limit_reached =
     JObj [(''success'', JBool False),
           (''message'', JStr ''Free subscription limit reached. Please upgrade to premium to generate more meal plans.''),
           (''subscriptionRequired'', JBool True)]"

definition subscription_server_error :: json where
  "subscription_server_error =
     JObj [(''success'', JBool False), (''message'', JStr ''Server error checking subscription'')]"

text \<open>
  The body of the \<^verbatim>\<open>try\<close> block of \<^verbatim>\<open>canGenerateWorkoutPlan\<close>. The two methods of
  \<^verbatim>\<open>Date\<close> the middleware calls are taken from the runtime, on timestamps:
  \<open>getFullYear t\<close> is the calendar year of \<open>t\<close> in the server's time zone, and
  \<open>setFullYear t y\<close> is the timestamp of the date \<open>t\<close> moved into year \<open>y\<close>. The
  source's \<^verbatim>\<open>endDate.setFullYear(endDate.getFullYear() + 1)\<close> on the date just read
  from the clock is then \<open>setFullYear t (getFullYear t + 1)\<close>. \<open>ruser\<close> is
  \<^verbatim>\<open>req.user\<close>.
\<close>

definition workout_try :: "(db_call \<Rightarrow> bool) \<Rightarrow> (int \<Rightarrow> int) \<Rightarrow> (int \<Rightarrow> int \<Rightarrow> int)
    \<Rightarrow> clock \<Rightarrow> json \<Rightarrow> db
    \<Rightarrow> (thrown + outcome) \<times> db" where
  "workout_try faults getFullYear setFullYear clk ruser d =
     (if \<not> truthy (opt_prop ruser ''_id'') then (Inr (Respond 401 not_authorized), d)
      else
        (case findOne faults (property ruser ''_id'') (t_query clk) d of
          (Inl e, d1) \<Rightarrow> (Inl e, d1)
        | (Inr None, d1) \<Rightarrow>
            (let endDate' = setFullYear (t_end clk) (getFullYear (t_end clk) + 1) in
             case create faults
                    \<lparr>user = property ruser ''_id'', plan = ''FREE'', startDate = t_start clk,
                     endDate = endDate', active = True,
                     workoutPlansGenerated = 0, mealPlansGenerated = 0\<rparr> d1 of
               (Inl e, d2) \<Rightarrow> (Inl e, d2)
             | (Inr (i, newSubscription), d2) \<Rightarrow>
                 if plan newSubscription = ''FREE'' \<and> 2 \<le> workoutPlansGenerated newSubscription
                 then (Inr (Respond 403 workout_limit_reached), d2)
                 else
                   (case save faults i
                           (newSubscription\<lparr>workoutPlansGenerated :=
                              workoutPlansGenerated newSubscription + 1\<rparr>) d2 of
                      (Inl e, d3) \<Rightarrow> (Inl e, d3)
                    | (Inr u, d3) \<Rightarrow> (Inr Next, d3)))
        | (Inr (Some (i, subscription)), d1) \<Rightarrow>
            if plan subscription = ''PREMIUM'' then (Inr Next, d1)
            else if plan subscription = ''FREE'' \<and> 2 \<le> workoutPlansGenerated subscription
            then (Inr (Respond 403 workout_limit_reached), d1)
            else
              (case save faults i
                      (subscription\<lparr>workoutPlansGenerated :=
                         workoutPlansGenerated subscription + 1\<rparr>) d1 of
                 (Inl e, d2) \<Rightarrow> (Inl e, d2)
               | (Inr u, d2) \<Rightarrow> (Inr Next, d2))))"

text \<open>The middleware: the \<^verbatim>\<open>try\<close> block, and the \<^verbatim>\<open>catch\<close> that answers 500.\<close>

definition canGenerateWorkoutPlan :: "(db_call \<Rightarrow> bool) \<Rightarrow> (int \<Rightarrow> int) \<Rightarrow> (int \<Rightarrow> int \<Rightarrow> int)
    \<Rightarrow> clock \<Rightarrow> json \<Rightarrow> db
    \<Rightarrow> outcome \<times> db" where
  "canGenerateWorkoutPlan faults getFullYear setFullYear clk ruser d =
     (case workout_try faults getFullYear setFullYear clk ruser d of
        (Inl e, d') \<Rightarrow> (Respond 500 subscription_server_error, d')
      | (Inr r, d') \<Rightarrow> (r, d'))"

definition meal_try :: "(db_call \<Rightarrow> bool) \<Rightarrow> (int \<Rightarrow> int) \<Rightarrow> (int \<Rightarrow> int \<Rightarrow> int)
    \<Rightarrow> clock \<Rightarrow> json \<Rightarrow> db
    \<Rightarrow> (thrown + outcome) \<times> db" where
  "meal_try faults getFullYear setFullYear clk ruser d =
     (if \<not> truthy (opt_prop ruser ''_id'') then (Inr (Respond 401 not_authorized), d)
      else
        (case findOne faults (property ruser ''_id'') (t_query clk) d of
          (Inl e, d1) \<Rightarrow> (Inl e, d1)
        | (Inr None, d1) \<Rightarrow>
            (let endDate' = setFullYear (t_end clk) (getFullYear (t_end clk) + 1) in
             case create faults
                    \<lparr>user = property ruser ''_id'', plan = ''FREE'', startDate = t_start clk,
                     endDate = endDate', active = True,
                     workoutPlansGenerated = 0, mealPlansGenerated = 0\<rparr> d1 of
               (Inl e, d2) \<Rightarrow> (Inl e, d2)
             | (Inr (i, newSubscription), d2) \<Rightarrow>
                 if plan newSubscription = ''FREE'' \<and> 2 \<le> mealPlansGenerated newSubscription
                 then (Inr (Respond 403 meal_limit_reached), d2)
                 else
                   (case save faults i
                           (newSubscription\<lparr>mealPlansGenerated :=
                              mealPlansGenerated newSubscription + 1\<rparr>) d2 of
                      (Inl e, d3) \<Rightarrow> (Inl e, d3)
                    | (Inr u, d3) \<Rightarrow> (Inr Next, d3)))
        | (Inr (Some (i, subscription)), d1) \<Rightarrow>
            if plan subscription = ''PREMIUM'' then (Inr Next, d1)
            else if plan subscription = ''FREE'' \<and> 2 \<le> mealPlansGenerated subscription
            then (Inr (Respond 403 meal_limit_reached), d1)
            else
              (case save faults i
                      (subscription\<lparr>mealPlansGenerated :=
                         mealPlansGenerated subscription + 1\<rparr>) d1 of
                 (Inl e, d2) \<Rightarrow> (Inl e, d2)
               | (Inr u, d2) \<Rightarrow> (Inr Next, d2))))"

definition canGenerateMealPlan :: "(db_call \<Rightarrow> bool) \<Rightarrow> (int \<Rightarrow> int) \<Rightarrow> (int \<Rightarrow> int \<Rightarrow> int)
    \<Rightarrow> clock \<Rightarrow> json \<Rightarrow> db
    \<Rightarrow> outcome \<times> db" where
  "canGenerateMealPlan faults getFullYear setFullYear clk ruser d =
     (case meal_try faults getFullYear setFullYear clk ruser d of
        (Inl e, d') \<Rightarrow> (Respond 500 subscription_server_error, d')
      | (Inr r, d') \<Rightarrow> (r, d'))"


section \<open>Workout plan generation (src/libs/workoutPlanGenerator.ts)\<close>

text \<open>The argument of \<^verbatim>\<open>workoutPlanGenerator\<close>, as its interface \<^verbatim>\<open>workAttt\<close> declares
  it: an object with four strings.\<close>

record workAttt =
  fitnessLevel :: string
  fitnessGoal :: string
  duration :: string
  daysPerweek :: string

text \<open>\<^verbatim>\<open>k in v\<close>: a \<^verbatim>\<open>TypeError\<close> on a primitive, otherwise whether the property exists.\<close>

fun has_key :: "string \<Rightarrow> json \<Rightarrow> thrown + bool" where
  "has_key k (JObj kvs) = Inr (k \<in> set (map fst kvs))"
| "has_key k (JArr xs ps) = Inr (k \<in> set (map fst ps))"
| "has_key k v = Inl (TypeError ''Cannot use the in operator on a primitive'')"

text \<open>
  \<^verbatim>\<open>o.k = x\<close> in strict mode (the file is a module): a \<^verbatim>\<open>TypeError\<close> on \<^verbatim>\<open>null\<close>,
  \<^verbatim>\<open>undefined\<close> and on a primitive, which cannot take a property.
\<close>

fun set_prop :: "json \<Rightarrow> string \<Rightarrow> json \<Rightarrow> thrown + json" where
  "set_prop (JObj kvs) k x = Inr (JObj (set_field k x kvs))"
| "set_prop (JArr xs ps) k x = Inr (JArr xs (set_field k x ps))"
| "set_prop JUndefined k x = Inl (TypeError ''Cannot set properties of undefined or null'')"
| "set_prop JNull k x = Inl (TypeError ''Cannot set properties of undefined or null'')"
| "set_prop v k x = Inl (TypeError ''Cannot create property on a primitive'')"

text \<open>
  The value of a container after the object stored under \<open>k\<close> has been mutated in place
  to \<open>x\<close>. The source never assigns to the container; the model, which has values
  and no references, rebuilds it.
\<close>

fun put :: "json \<Rightarrow> string \<Rightarrow> json \<Rightarrow> json" where
  "put (JObj kvs) k x = JObj (set_field k x kvs)"
| "put (JArr xs ps) k x = JArr xs (set_field k x ps)"
| "put v k x = v"

text \<open>The elements \<^verbatim>\<open>for (const e of v)\<close> visits: those of an array, the characters of
  a string; anything else in the model is not iterable.\<close>

fun for_of :: "json \<Rightarrow> thrown + json list" where
  "for_of (JArr xs ps) = Inr xs"
| "for_of (JStr s) = Inr (map (\<lambda>c. JStr [c]) s)"
| "for_of v = Inl (TypeError ''is not iterable'')"

text \<open>
  The values \<^verbatim>\<open>v[day]\<close> for \<^verbatim>\<open>day\<close> in \<^verbatim>\<open>Object.keys(v)\<close>, in that order: the
  properties of an object, the elements and then the named properties of an array, the
  characters of a string, nothing for a number or a boolean.
\<close>

fun key_values :: "json \<Rightarrow> thrown + json list" where
  "key_values JUndefined = Inl (TypeError ''Cannot convert undefined or null to object'')"
| "key_values JNull = Inl (TypeError ''Cannot convert undefined or null to object'')"
| "key_values (JObj kvs) = Inr (map snd kvs)"
| "key_values (JArr xs ps) = Inr (xs @ map snd ps)"
| "key_values (JStr s) = Inr (map (\<lambda>c. JStr [c]) s)"
| "key_values v = Inr []"

text \<open>The container of \<open>key_values\<close> after those values have been mutated in place.\<close>

fun with_key_values :: "json \<Rightarrow> json list \<Rightarrow> json" where
  "with_key_values (JObj kvs) vs = JObj (zip (map fst kvs) vs)"
| "with_key_values (JArr xs ps) vs =
     JArr (take (length xs) vs) (zip (map fst ps) (drop (length xs) vs))"
| "with_key_values v vs = v"

text \<open>The array of \<open>for_of\<close> after its elements have been mutated in place.\<close>

fun with_elements :: "json \<Rightarrow> json list \<Rightarrow> json" where
  "with_elements (JArr xs ps) es = JArr es ps"
| "with_elements v es = v"

text \<open>
  \<^verbatim>\<open>exercise.gif_url = await getExerciseVideo(exercise.name)\<close>. \<open>vid n name\<close> is what
  the \<open>n\<close>-th lookup of the run gives when asked for \<open>name\<close>: the awaited value, or what
  it throws. The result carries the number of lookups made so far.
\<close>

definition enrich_exercise :: "(nat \<Rightarrow> json \<Rightarrow> thrown + json) \<Rightarrow> nat \<Rightarrow> json
    \<Rightarrow> thrown + (json \<times> nat)" where
  "enrich_exercise vid n exercise =
     (case get_prop exercise ''name'' of
        Inl e \<Rightarrow> Inl e
      | Inr name \<Rightarrow>
          (case vid n name of
             Inl e \<Rightarrow> Inl e
           | Inr url \<Rightarrow>
               (case set_prop exercise ''gif_url'' url of
                  Inl e \<Rightarrow> Inl e
                | Inr exercise' \<Rightarrow> Inr (exercise', Suc n))))"

text \<open>The body of the three inner loops, over the elements of an \<^verbatim>\<open>exercises\<close> list.\<close>

fun enrich_exercises :: "(nat \<Rightarrow> json \<Rightarrow> thrown + json) \<Rightarrow> nat \<Rightarrow> json list
    \<Rightarrow> thrown + (json list \<times> nat)" where
  "enrich_exercises vid n [] = Inr ([], n)"
| "enrich_exercises vid n (x # xs) =
     (case enrich_exercise vid n x of
        Inl e \<Rightarrow> Inl e
      | Inr (x', n') \<Rightarrow>
          (case enrich_exercises vid n' xs of
             Inl e \<Rightarrow> Inl e
           | Inr (xs', n'') \<Rightarrow> Inr (x' # xs', n'')))"

text \<open>\<^verbatim>\<open>for (const exercise of section.exercises) ...\<close> for one section (a day, the
  warm-up or the cool-down).\<close>

definition enrich_section :: "(nat \<Rightarrow> json \<Rightarrow> thrown + json) \<Rightarrow> nat \<Rightarrow> json
    \<Rightarrow> thrown + (json \<times> nat)" where
  "enrich_section vid n sec =
     (case get_prop sec ''exercises'' of
        Inl e \<Rightarrow> Inl e
      | Inr exercises \<Rightarrow>
          (case for_of exercises of
             Inl e \<Rightarrow> Inl e
           | Inr es \<Rightarrow>
               (case enrich_exercises vid n es of
                  Inl e \<Rightarrow> Inl e
                | Inr (es', n') \<Rightarrow>
                    Inr (put sec ''exercises'' (with_elements exercises es'), n'))))"

text \<open>The outer loop over the days.\<close>

fun enrich_sections :: "(nat \<Rightarrow> json \<Rightarrow> thrown + json) \<Rightarrow> nat \<Rightarrow> json list
    \<Rightarrow> thrown + (json list \<times> nat)" where
  "enrich_sections vid n [] = Inr ([], n)"
| "enrich_sections vid n (v # vs) =
     (case enrich_section vid n v of
        Inl e \<Rightarrow> Inl e
      | Inr (v', n') \<Rightarrow>
          (case enrich_sections vid n' vs of
             Inl e \<Rightarrow> Inl e
           | Inr (vs', n'') \<Rightarrow> Inr (v' # vs', n'')))"

text \<open>Lines 41 to 58: the three loops on \<^verbatim>\<open>workoutPlan\<close>, which is truthy here.\<close>

definition enrich_plan :: "(nat \<Rightarrow> json \<Rightarrow> thrown + json) \<Rightarrow> json \<Rightarrow> thrown + json" where
  "enrich_plan vid workoutPlan =
     (let daily = property workoutPlan ''daily_workouts'' in
      case key_values daily of
        Inl e \<Rightarrow> Inl e
      | Inr days \<Rightarrow>
          (case enrich_sections vid 0 days of
             Inl e \<Rightarrow> Inl e
           | Inr (days', n1) \<Rightarrow>
               (let plan1 = put workoutPlan ''daily_workouts'' (with_key_values daily days') in
                case enrich_section vid n1 (property plan1 ''warm_up'') of
                  Inl e \<Rightarrow> Inl e
                | Inr (warm', n2) \<Rightarrow>
                    (let plan2 = put plan1 ''warm_up'' warm' in
                     case enrich_section vid n2 (property plan2 ''cool_down'') of
                       Inl e \<Rightarrow> Inl e
                     | Inr (cool', n3) \<Rightarrow> Inr (put plan2 ''cool_down'' cool')))))"

text \<open>\<^verbatim>\<open>isWorkoutPlan(data)\<close>, that is \<^verbatim>\<open>data && 'workout_plan' in data\<close>.\<close>

definition isWorkoutPlan :: "json \<Rightarrow> thrown + json" where
  "isWorkoutPlan data' =
     (if \<not> truthy data' then Inr data'
      else case has_key ''workout_plan'' data' of
             Inl e \<Rightarrow> Inl e
           | Inr b \<Rightarrow> Inr (JBool b))"

definition invalid_plan :: json where
  "invalid_plan =
     JObj [(''success'', JBool False),
           (''message'', JStr ''Invalid workout plan data received''),
           (''error'', JStr ''Missing workout plan data'')]"

text \<open>
  The \<^verbatim>\<open>try\<close> block. \<open>workoutPrompt\<close> renders the prompt, \<open>gemini\<close> is the awaited
  call of the generative-AI client; both may throw.
\<close>

definition generator_try :: "(workAttt \<Rightarrow> thrown + string) \<Rightarrow> (string \<Rightarrow> thrown + json)
    \<Rightarrow> (nat \<Rightarrow> json \<Rightarrow> thrown + json) \<Rightarrow> workAttt \<Rightarrow> thrown + json" where
  "generator_try workoutPrompt gemini vid attrs =
     (case workoutPrompt attrs of
        Inl e \<Rightarrow> Inl e
      | Inr prompt \<Rightarrow>
     (case gemini prompt of
        Inl e \<Rightarrow> Inl e
      | Inr result \<Rightarrow>
     (case get_prop result ''success'' of
        Inl e \<Rightarrow> Inl e
      | Inr ok \<Rightarrow>
          if \<not> truthy ok
          then Inr (JObj [(''success'', JBool False),
                          (''message'',
                             if truthy (property result ''message'')
                             then property result ''message''
                             else JStr ''Failed to generate workout plan''),
                          (''error'', property result ''error'')])
          else if \<not> truthy (property result ''data'') then Inr invalid_plan
          else
            (case isWorkoutPlan (property result ''data'') of
               Inl e \<Rightarrow> Inl e
             | Inr guard \<Rightarrow>
                 if \<not> truthy guard then Inr invalid_plan
                 else if \<not> truthy (property (property result ''data'') ''workout_plan'')
                 then Inr invalid_plan
                 else
                   (case enrich_plan vid (property (property result ''data'') ''workout_plan'') of
                      Inl e \<Rightarrow> Inl e
                    | Inr workoutPlan \<Rightarrow>
                        Inr (JObj [(''success'', JBool True),
                                   (''message'', JStr ''Workout plan generated successfully''),
                                   (''data'', JObj [(''workout_plan'', workoutPlan)])]))))))"

text \<open>\<^verbatim>\<open>error instanceof Error ? error.message : "Unknown error occurred"\<close>.\<close>

fun error_message :: "thrown \<Rightarrow> string" where
  "error_message (TypeError m) = m"
| "error_message (Error m) = m"
| "error_message (NonError v) = ''Unknown error occurred''"

text \<open>
  The function: the \<^verbatim>\<open>try\<close> block and its \<^verbatim>\<open>catch\<close>. \<open>Inr\<close> is the value the returned
  promise resolves to, \<open>Inl\<close> would be a rejection.
\<close>

definition workoutPlanGenerator :: "(workAttt \<Rightarrow> thrown + string) \<Rightarrow> (string \<Rightarrow> thrown + json)
    \<Rightarrow> (nat \<Rightarrow> json \<Rightarrow> thrown + json) \<Rightarrow> workAttt \<Rightarrow> thrown + json" where
  "workoutPlanGenerator workoutPrompt gemini vid attrs =
     (case generator_try workoutPrompt gemini vid attrs of
        Inl e \<Rightarrow>
          Inr (JObj [(''success'', JBool False),
                     (''message'', JStr ''Failed to generate workout plan''),
                     (''error'', JStr (error_message e))])
      | Inr r \<Rightarrow> Inr r)"

text \<open>
  The exercises of a plan in the order the three loops visit them: day by day, then the
  warm-up, then the cool-down.
\<close>

definition section_exercises :: "json \<Rightarrow> json list" where
  "section_exercises sec = (case for_of (property sec ''exercises'') of Inl e \<Rightarrow> [] | Inr es \<Rightarrow> es)"

definition plan_exercises :: "json \<Rightarrow> json list" where
  "plan_exercises p =
     concat (map section_exercises
               (case key_values (property p ''daily_workouts'') of Inl e \<Rightarrow> [] | Inr vs \<Rightarrow> vs))
     @ section_exercises (property p ''warm_up'')
     @ section_exercises (property p ''cool_down'')"

text \<open>
  \<open>enriched vid n es es'\<close>: the list \<open>es'\<close> is \<open>es\<close> with, for each position \<open>j\<close>, the
  property \<^verbatim>\<open>gif_url\<close> assigned the value lookup number \<open>n + j\<close> returned for the
  element's \<^verbatim>\<open>name\<close>.
\<close>

fun enriched :: "(nat \<Rightarrow> json \<Rightarrow> thrown + json) \<Rightarrow> nat \<Rightarrow> json list \<Rightarrow> json list \<Rightarrow> bool" where
  "enriched vid n [] [] = True"
| "enriched vid n (e # es) (e' # es') =
     ((case vid n (property e ''name'') of
         Inl x \<Rightarrow> False
       | Inr url \<Rightarrow> set_prop e ''gif_url'' url = Inr e') \<and>
      enriched vid (Suc n) es es')"
| "enriched vid n es es' = False"

text \<open>Objects and arrays, the values that hold properties.\<close>

fun is_container :: "json \<Rightarrow> bool" where
  "is_container (JObj kvs) = True"
| "is_container (JArr xs ps) = True"
| "is_container v = False"

section \<open>Admin routes (src/routes/admin.ts)\<close>

text \<open>
  Modelled from the spec: the schema of the user model (\<^verbatim>\<open>models/User\<close>) is not among
  the sources. The spec gives a user an identity, hashed credentials, a role and the
  trainer's fields; a user document is the list of its fields, \<^verbatim>\<open>_id\<close> and
  \<^verbatim>\<open>password\<close> among them, holding the values it is given.
\<close>

type_synonym doc = "(string \<times> json) list"

text \<open>
  The collection is the list of its documents, and a loaded document is identified by
  its position. Every call on the model may reject (\<open>rejects\<close>), which is where a cast
  or validation error of the schema shows. The handlers are modelled for requests that
  the \<^verbatim>\<open>auth\<close> and \<^verbatim>\<open>checkRole\<close> middleware has let through.
\<close>

datatype user_call =
    UserFind doc
  | UserFindOne doc
  | UserFindById string
  | UserSave doc
  | UserDeleteOne doc

record user_db =
  users :: "doc list"
  user_calls :: "user_call list"

text \<open>
  What the handlers take from their surroundings: which calls on the model reject,
  \<^verbatim>\<open>bcrypt.hash(password, 10)\<close>, the \<^verbatim>\<open>_id\<close> a new document gets, and the store's
  order on names for \<^verbatim>\<open>sort({name: 1})\<close>.
\<close>

record admin_env =
  rejects :: "user_call \<Rightarrow> bool"
  bcrypt_hash :: "json \<Rightarrow> thrown + string"
  fresh_id :: json
  name_order :: "json \<Rightarrow> json \<Rightarrow> bool"

text \<open>What a \<^verbatim>\<open>catch\<close> block of these handlers tells apart: a \<^verbatim>\<open>ZodError\<close>, with the
  messages of its first and further issues, and anything else.\<close>

datatype caught = ZodError string "string list" | OtherError

type_synonym response = "nat \<times> json"

definition error_body :: "string \<Rightarrow> json" where
  "error_body m = JObj [(''error'', JStr m)]"

definition server_error :: response where
  "server_error = (500, error_body ''Server error'')"

text \<open>A filter of equalities, such as \<^verbatim>\<open>{_id: id, role: 'TRAINER'}\<close>.\<close>

definition doc_matches :: "doc \<Rightarrow> doc \<Rightarrow> bool" where
  "doc_matches flt d = list_all (\<lambda>(k, v). map_of d k = Some v) flt"

fun first_doc :: "doc \<Rightarrow> nat \<Rightarrow> doc list \<Rightarrow> (nat \<times> doc) option" where
  "first_doc flt i [] = None"
| "first_doc flt i (d # ds) =
     (if doc_matches flt d then Some (i, d) else first_doc flt (Suc i) ds)"

fun remove_first :: "doc \<Rightarrow> doc list \<Rightarrow> doc list" where
  "remove_first flt [] = []"
| "remove_first flt (d # ds) = (if doc_matches flt d then ds else d # remove_first flt ds)"

text \<open>\<^verbatim>\<open>sort({name: 1})\<close>, as an insertion sort on the field \<^verbatim>\<open>name\<close>.\<close>

fun insert_by_name :: "(json \<Rightarrow> json \<Rightarrow> bool) \<Rightarrow> doc \<Rightarrow> doc list \<Rightarrow> doc list" where
  "insert_by_name le d [] = [d]"
| "insert_by_name le d (x # xs) =
     (if le (property (JObj d) ''name'') (property (JObj x) ''name'') then d # x # xs
      else x # insert_by_name le d xs)"

definition sort_by_name :: "(json \<Rightarrow> json \<Rightarrow> bool) \<Rightarrow> doc list \<Rightarrow> doc list" where
  "sort_by_name le ds = foldr (insert_by_name le) ds []"

text \<open>\<^verbatim>\<open>User.find(filter).select('-password').sort({name: 1})\<close>, one query.\<close>

definition find_sorted :: "admin_env \<Rightarrow> doc \<Rightarrow> user_db \<Rightarrow> (caught + doc list) \<times> user_db" where
  "find_sorted env flt db =
     (let c = UserFind flt; db' = db\<lparr>user_calls := user_calls db @ [c]\<rparr>
      in if rejects env c then (Inl OtherError, db')
         else (Inr (sort_by_name (name_order env)
                      (map (delete_field ''password'') (filter (doc_matches flt) (users db)))),
               db'))"

definition user_findOne :: "admin_env \<Rightarrow> doc \<Rightarrow> user_db
    \<Rightarrow> (caught + (nat \<times> doc) option) \<times> user_db" where
  "user_findOne env flt db =
     (let c = UserFindOne flt; db' = db\<lparr>user_calls := user_calls db @ [c]\<rparr>
      in if rejects env c then (Inl OtherError, db')
         else (Inr (first_doc flt 0 (users db)), db'))"

definition findById :: "admin_env \<Rightarrow> string \<Rightarrow> user_db
    \<Rightarrow> (caught + (nat \<times> doc) option) \<times> user_db" where
  "findById env uid db =
     (let c = UserFindById uid; db' = db\<lparr>user_calls := user_calls db @ [c]\<rparr>
      in if rejects env c then (Inl OtherError, db')
         else (Inr (first_doc [(''_id'', JStr uid)] 0 (users db)), db'))"

text \<open>\<^verbatim>\<open>doc.save()\<close> of a loaded document, and of a new one.\<close>

definition user_save :: "admin_env \<Rightarrow> nat \<Rightarrow> doc \<Rightarrow> user_db \<Rightarrow> (caught + unit) \<times> user_db" where
  "user_save env i d db =
     (let c = UserSave d; db' = db\<lparr>user_calls := user_calls db @ [c]\<rparr>
      in if rejects env c then (Inl OtherError, db')
         else (Inr (), db'\<lparr>users := (users db)[i := d]\<rparr>))"

definition user_insert :: "admin_env \<Rightarrow> doc \<Rightarrow> user_db \<Rightarrow> (caught + unit) \<times> user_db" where
  "user_insert env d db =
     (let c = UserSave d; db' = db\<lparr>user_calls := user_calls db @ [c]\<rparr>
      in if rejects env c then (Inl OtherError, db')
         else (Inr (), db'\<lparr>users := users db @ [d]\<rparr>))"

definition deleteOne :: "admin_env \<Rightarrow> doc \<Rightarrow> user_db \<Rightarrow> (caught + unit) \<times> user_db" where
  "deleteOne env flt db =
     (let c = UserDeleteOne flt; db' = db\<lparr>user_calls := user_calls db @ [c]\<rparr>
      in if rejects env c then (Inl OtherError, db')
         else (Inr (), db'\<lparr>users := remove_first flt (users db)\<rparr>))"

text \<open>\<^verbatim>\<open>new User({...})\<close>: the fields that are not \<^verbatim>\<open>undefined\<close>, under a new \<^verbatim>\<open>_id\<close>.\<close>

definition new_document :: "json \<Rightarrow> doc \<Rightarrow> doc" where
  "new_document oid given = (''_id'', oid) # filter (\<lambda>(k, v). v \<noteq> JUndefined) given"

subsection \<open>The two schemas\<close>

text \<open>The names zod gives the types of values, and the message of its default error
  map for a value of the wrong type.\<close>

fun zod_type :: "json \<Rightarrow> string" where
  "zod_type JUndefined = ''undefined''"
| "zod_type JNull = ''null''"
| "zod_type (JBool b) = ''boolean''"
| "zod_type (JNum n) = ''number''"
| "zod_type (JStr s) = ''string''"
| "zod_type (JArr xs ps) = ''array''"
| "zod_type (JObj kvs) = ''object''"

definition invalid_type :: "string \<Rightarrow> json \<Rightarrow> string" where
  "invalid_type expected v =
     (if v = JUndefined then ''Required''
      else ''Expected '' @ expected @ '', received '' @ zod_type v)"

text \<open>\<^verbatim>\<open>util.joinValues\<close> on the options of the enum: each in single quotes, separated
  by a bar.\<close>

definition quoted :: "string \<Rightarrow> string" where
  "quoted s = [CHR 0x27] @ s @ [CHR 0x27]"

definition role_options :: string where
  "role_options = quoted ''ADMIN'' @ '' | '' @ quoted ''TRAINER'' @ '' | '' @ quoted ''USER''"

text \<open>\<^verbatim>\<open>z.enum(['ADMIN', 'TRAINER', 'USER'])\<close>: the issues of a value.\<close>

definition role_issues :: "json \<Rightarrow> string list" where
  "role_issues v =
     (case v of
        JStr s \<Rightarrow>
          if s \<in> set [''ADMIN'', ''TRAINER'', ''USER''] then []
          else [''Invalid enum value. Expected '' @ role_options @ '', received '' @ quoted s]
      | _ \<Rightarrow> [invalid_type role_options v])"

text \<open>\<^verbatim>\<open>z.string().min(1, msg)\<close> and \<^verbatim>\<open>z.number().min(0, msg)\<close>.\<close>

definition string_min1_issues :: "string \<Rightarrow> json \<Rightarrow> string list" where
  "string_min1_issues msg v =
     (case v of JStr s \<Rightarrow> if length s < 1 then [msg] else []
      | _ \<Rightarrow> [invalid_type ''string'' v])"

definition number_min0_issues :: "string \<Rightarrow> json \<Rightarrow> string list" where
  "number_min0_issues msg v =
     (case v of JNum n \<Rightarrow> if n < 0 then [msg] else []
      | _ \<Rightarrow> [invalid_type ''number'' v])"

text \<open>
  \<^verbatim>\<open>schema.parse(req.body)\<close> for a \<^verbatim>\<open>z.object\<close> with the given fields: the body must be
  a plain object; the issues of the fields are collected in the order of the schema; the
  result keeps the schema's fields only.
\<close>

definition parse_object :: "(string \<times> (json \<Rightarrow> string list)) list \<Rightarrow> json \<Rightarrow> caught + doc" where
  "parse_object shape body =
     (case body of
        JObj kvs \<Rightarrow>
          (case concat (map (\<lambda>(k, check). check (property body k)) shape) of
             [] \<Rightarrow> Inr (map (\<lambda>(k, check). (k, property body k)) shape)
           | m # ms \<Rightarrow> Inl (ZodError m ms))
      | _ \<Rightarrow> Inl (ZodError (invalid_type ''object'' body) []))"

definition updateUserRoleSchema :: "(string \<times> (json \<Rightarrow> string list)) list" where
  "updateUserRoleSchema = [(''role'', role_issues)]"

definition updateTrainerInfoSchema :: "(string \<times> (json \<Rightarrow> string list)) list" where
  "updateTrainerInfoSchema =
     [(''specialization'', string_min1_issues ''Specialization is required''),
      (''hourlyRate'', number_min0_issues ''Hourly rate must be positive''),
      (''bio'', string_min1_issues ''Bio is required'')]"

subsection \<open>The handlers\<close>

text \<open>The two \<^verbatim>\<open>catch\<close> blocks: the plain one, and the one that answers a
  \<^verbatim>\<open>ZodError\<close> with 400 and the message of its first issue.\<close>

definition catch_plain :: "(caught + response) \<times> user_db \<Rightarrow> response \<times> user_db" where
  "catch_plain r = (case r of (Inl e, db) \<Rightarrow> (server_error, db) | (Inr x, db) \<Rightarrow> (x, db))"

definition catch_zod :: "(caught + response) \<times> user_db \<Rightarrow> response \<times> user_db" where
  "catch_zod r =
     (case r of
        (Inl (ZodError m ms), db) \<Rightarrow> ((400, error_body m), db)
      | (Inl OtherError, db) \<Rightarrow> (server_error, db)
      | (Inr x, db) \<Rightarrow> (x, db))"

text \<open>\<^verbatim>\<open>GET /trainers\<close>\<close>

definition get_trainers :: "admin_env \<Rightarrow> user_db \<Rightarrow> response \<times> user_db" where
  "get_trainers env db =
     catch_plain
       (case find_sorted env [(''role'', JStr ''TRAINER'')] db of
          (Inl e, db1) \<Rightarrow> (Inl e, db1)
        | (Inr trainers, db1) \<Rightarrow> (Inr (200, JArr (map JObj trainers) []), db1))"

text \<open>\<^verbatim>\<open>POST /trainers\<close>\<close>

definition post_trainers :: "admin_env \<Rightarrow> json \<Rightarrow> user_db \<Rightarrow> response \<times> user_db" where
  "post_trainers env body db =
     catch_plain
       (if nullish body then (Inl OtherError, db)
        else
          (case user_findOne env [(''email'', property body ''email'')] db of
             (Inl e, db1) \<Rightarrow> (Inl e, db1)
           | (Inr (Some existingUser), db1) \<Rightarrow> (Inr (400, error_body ''Email already exists''), db1)
           | (Inr None, db1) \<Rightarrow>
               (case bcrypt_hash env (property body ''password'') of
                  Inl e \<Rightarrow> (Inl OtherError, db1)
                | Inr hashedPassword \<Rightarrow>
                    (let trainer = new_document (fresh_id env)
                           [(''name'', property body ''name''),
                            (''email'', property body ''email''),
                            (''password'', JStr hashedPassword),
                            (''role'', JStr ''TRAINER''),
                            (''specialization'', property body ''specialization''),
                            (''hourlyRate'', property body ''hourlyRate''),
                            (''bio'', property body ''bio''),
                            (''isVerified'', JBool True)]
                     in case user_insert env trainer db1 of
                          (Inl e, db2) \<Rightarrow> (Inl e, db2)
                        | (Inr u, db2) \<Rightarrow>
                            (Inr (201, JObj (delete_field ''password'' trainer)), db2)))))"

text \<open>\<^verbatim>\<open>typeof v === 'boolean'\<close>\<close>

fun is_boolean :: "json \<Rightarrow> bool" where
  "is_boolean (JBool b) = True"
| "is_boolean v = False"

text \<open>Lines 86 to 93: the fields of the request that the handler applies.\<close>

definition apply_trainer_update :: "json \<Rightarrow> doc \<Rightarrow> doc" where
  "apply_trainer_update body trainer =
     (let t1 = (if truthy (property body ''name'')
                then set_field ''name'' (property body ''name'') trainer else trainer);
          t2 = (if truthy (property body ''specialization'')
                then set_field ''specialization'' (property body ''specialization'') t1 else t1);
          t3 = (if truthy (property body ''hourlyRate'')
                then set_field ''hourlyRate'' (property body ''hourlyRate'') t2 else t2);
          t4 = (if truthy (property body ''bio'')
                then set_field ''bio'' (property body ''bio'') t3 else t3)
      in if is_boolean (property body ''isVerified'')
         then set_field ''isVerified'' (property body ''isVerified'') t4 else t4)"

text \<open>\<^verbatim>\<open>PATCH /trainers/:trainerId\<close>\<close>

definition patch_trainer :: "admin_env \<Rightarrow> string \<Rightarrow> json \<Rightarrow> user_db \<Rightarrow> response \<times> user_db" where
  "patch_trainer env trainerId body db =
     catch_plain
       (if nullish body then (Inl OtherError, db)
        else
          (case user_findOne env [(''_id'', JStr trainerId), (''role'', JStr ''TRAINER'')] db of
             (Inl e, db1) \<Rightarrow> (Inl e, db1)
           | (Inr None, db1) \<Rightarrow> (Inr (404, error_body ''Trainer not found''), db1)
           | (Inr (Some (i, trainer)), db1) \<Rightarrow>
               (let trainer' = apply_trainer_update body trainer
                in case user_save env i trainer' db1 of
                     (Inl e, db2) \<Rightarrow> (Inl e, db2)
                   | (Inr u, db2) \<Rightarrow>
                       (Inr (200, JObj (delete_field ''password'' trainer')), db2))))"

text \<open>\<^verbatim>\<open>DELETE /trainers/:trainerId\<close>\<close>

definition delete_trainer :: "admin_env \<Rightarrow> string \<Rightarrow> user_db \<Rightarrow> response \<times> user_db" where
  "delete_trainer env trainerId db =
     catch_plain
       (case user_findOne env [(''_id'', JStr trainerId), (''role'', JStr ''TRAINER'')] db of
          (Inl e, db1) \<Rightarrow> (Inl e, db1)
        | (Inr None, db1) \<Rightarrow> (Inr (404, error_body ''Trainer not found''), db1)
        | (Inr (Some (i, trainer)), db1) \<Rightarrow>
            (case deleteOne env [(''_id'', property (JObj trainer) ''_id'')] db1 of
               (Inl e, db2) \<Rightarrow> (Inl e, db2)
             | (Inr u, db2) \<Rightarrow>
                 (Inr (200, JObj [(''message'', JStr ''Trainer deleted successfully'')]), db2)))"

text \<open>\<^verbatim>\<open>GET /users\<close>\<close>

definition get_users :: "admin_env \<Rightarrow> user_db \<Rightarrow> response \<times> user_db" where
  "get_users env db =
     catch_plain
       (case find_sorted env [] db of
          (Inl e, db1) \<Rightarrow> (Inl e, db1)
        | (Inr us, db1) \<Rightarrow> (Inr (200, JArr (map JObj us) []), db1))"

text \<open>\<^verbatim>\<open>PATCH /users/:userId/role\<close>\<close>

definition patch_user_role :: "admin_env \<Rightarrow> string \<Rightarrow> json \<Rightarrow> user_db \<Rightarrow> response \<times> user_db" where
  "patch_user_role env userId body db =
     catch_zod
       (case parse_object updateUserRoleSchema body of
          Inl e \<Rightarrow> (Inl e, db)
        | Inr validatedData \<Rightarrow>
            (case findById env userId db of
               (Inl e, db1) \<Rightarrow> (Inl e, db1)
             | (Inr None, db1) \<Rightarrow> (Inr (404, error_body ''User not found''), db1)
             | (Inr (Some (i, u)), db1) \<Rightarrow>
                 (let u' = set_field ''role'' (property (JObj validatedData) ''role'') u
                  in case user_save env i u' db1 of
                       (Inl e, db2) \<Rightarrow> (Inl e, db2)
                     | (Inr x, db2) \<Rightarrow> (Inr (200, JObj (delete_field ''password'' u')), db2))))"

text \<open>\<^verbatim>\<open>PATCH /trainers/:trainerId/info\<close>\<close>

definition patch_trainer_info :: "admin_env \<Rightarrow> string \<Rightarrow> json \<Rightarrow> user_db \<Rightarrow> response \<times> user_db" where
  "patch_trainer_info env trainerId body db =
     catch_zod
       (case parse_object updateTrainerInfoSchema body of
          Inl e \<Rightarrow> (Inl e, db)
        | Inr validatedData \<Rightarrow>
            (case user_findOne env [(''_id'', JStr trainerId), (''role'', JStr ''TRAINER'')] db of
               (Inl e, db1) \<Rightarrow> (Inl e, db1)
             | (Inr None, db1) \<Rightarrow> (Inr (404, error_body ''Trainer not found''), db1)
             | (Inr (Some (i, trainer)), db1) \<Rightarrow>
                 (let t1 = set_field ''specialization''
                             (property (JObj validatedData) ''specialization'') trainer;
                      t2 = set_field ''hourlyRate'' (property (JObj validatedData) ''hourlyRate'') t1;
                      t3 = set_field ''bio'' (property (JObj validatedData) ''bio'') t2
                  in case user_save env i t3 db1 of
                       (Inl e, db2) \<Rightarrow> (Inl e, db2)
                     | (Inr x, db2) \<Rightarrow> (Inr (200, JObj (delete_field ''password'' t3)), db2))))"

text \<open>The seven routes of the router, with what each takes from the request.\<close>

datatype admin_request =
    GetTrainers
  | PostTrainers json
  | PatchTrainer string json
  | DeleteTrainer string
  | GetUsers
  | PatchUserRole string json
  | PatchTrainerInfo string json

fun admin_route :: "admin_env \<Rightarrow> admin_request \<Rightarrow> user_db \<Rightarrow> response \<times> user_db" where
  "admin_route env GetTrainers db = get_trainers env db"
| "admin_route env (PostTrainers body) db = post_trainers env body db"
| "admin_route env (PatchTrainer trainerId body) db = patch_trainer env trainerId body db"
| "admin_route env (DeleteTrainer trainerId) db = delete_trainer env trainerId db"
| "admin_route env GetUsers db = get_users env db"
| "admin_route env (PatchUserRole userId body) db = patch_user_role env userId body db"
| "admin_route env (PatchTrainerInfo trainerId body) db = patch_trainer_info env trainerId body db"

text \<open>Whether a response body shows a field \<^verbatim>\<open>password\<close>: as a property of the body, or
  of an element when the body is a list of documents.\<close>

definition has_password_field :: "json \<Rightarrow> bool" where
  "has_password_field v = (''password'' \<in> set (map fst (own v)))"

definition body_has_password :: "json \<Rightarrow> bool" where
  "body_has_password b =
     (has_password_field b \<or> (case b of JArr xs ps \<Rightarrow> list_ex has_password_field xs | _ \<Rightarrow> False))"

section \<open>Properties of the subscription gate\<close>

lemmas gate_defs = canGenerateWorkoutPlan_def workout_try_def canGenerateMealPlan_def meal_try_def
  findOne_def create_def save_def Let_def

lemma first_match_later:
  "first_match uid t i xs = None \<Longrightarrow> t \<le> t' \<Longrightarrow> first_match uid t' i xs = None"
  by (induction xs arbitrary: i) (auto simp: matches_def split: if_splits)

lemma first_match_append:
  "first_match uid t i (xs @ ys) =
     (case first_match uid t i xs of Some r \<Rightarrow> Some r | None \<Rightarrow> first_match uid t (i + length xs) ys)"
  by (induction xs arbitrary: i) (auto split: option.splits)

lemma first_match_Some:
  "first_match uid t i xs = Some (j, s) \<Longrightarrow> i \<le> j \<and> j < i + length xs \<and> xs ! (j - i) = s \<and> matches uid t s"
proof (induction xs arbitrary: i)
  case Nil
  then show ?case by simp
next
  case (Cons a xs)
  show ?case
  proof (cases "matches uid t a")
    case True
    with Cons.prems show ?thesis by simp
  next
    case False
    with Cons.prems have "first_match uid t (Suc i) xs = Some (j, s)" by simp
    from Cons.IH[OF this] show ?thesis by (auto simp: nth_Cons' Suc_diff_le)
  qed
qed


lemma workout_found:
  assumes "truthy (opt_prop ruser ''_id'')"
    and "\<not> faults (FindOne (property ruser ''_id'') (t_query clk))"
    and "first_match (property ruser ''_id'') (t_query clk) 0 (docs d) = Some (i, s)"
  shows "canGenerateWorkoutPlan faults getFullYear setFullYear clk ruser d =
     (let d1 = d\<lparr>calls := calls d @ [FindOne (property ruser ''_id'') (t_query clk)]\<rparr>;
          s' = s\<lparr>workoutPlansGenerated := workoutPlansGenerated s + 1\<rparr>
      in if plan s = ''PREMIUM'' then (Next, d1)
         else if plan s = ''FREE'' \<and> 2 \<le> workoutPlansGenerated s
         then (Respond 403 workout_limit_reached, d1)
         else if faults (Save i s')
         then (Respond 500 subscription_server_error, d1\<lparr>calls := calls d1 @ [Save i s']\<rparr>)
         else (Next, \<lparr>docs = (docs d)[i := s'], calls = calls d1 @ [Save i s']\<rparr>))"
  using assms by (simp add: gate_defs)

lemma meal_found:
  assumes "truthy (opt_prop ruser ''_id'')"
    and "\<not> faults (FindOne (property ruser ''_id'') (t_query clk))"
    and "first_match (property ruser ''_id'') (t_query clk) 0 (docs d) = Some (i, s)"
  shows "canGenerateMealPlan faults getFullYear setFullYear clk ruser d =
     (let d1 = d\<lparr>calls := calls d @ [FindOne (property ruser ''_id'') (t_query clk)]\<rparr>;
          s' = s\<lparr>mealPlansGenerated := mealPlansGenerated s + 1\<rparr>
      in if plan s = ''PREMIUM'' then (Next, d1)
         else if plan s = ''FREE'' \<and> 2 \<le> mealPlansGenerated s
         then (Respond 403 meal_limit_reached, d1)
         else if faults (Save i s')
         then (Respond 500 subscription_server_error, d1\<lparr>calls := calls d1 @ [Save i s']\<rparr>)
         else (Next, \<lparr>docs = (docs d)[i := s'], calls = calls d1 @ [Save i s']\<rparr>))"
  using assms by (simp add: gate_defs)

lemma workout_lazy:
  assumes "truthy (opt_prop ruser ''_id'')"
    and "\<not> faults (FindOne (property ruser ''_id'') (t_query clk))"
    and "first_match (property ruser ''_id'') (t_query clk) 0 (docs d) = None"
  shows "canGenerateWorkoutPlan faults getFullYear setFullYear clk ruser d =
     (let s0 = \<lparr>user = property ruser ''_id'', plan = ''FREE'', startDate = t_start clk,
                endDate = setFullYear (t_end clk) (getFullYear (t_end clk) + 1), active = True,
                workoutPlansGenerated = 0, mealPlansGenerated = 0\<rparr>;
          s1 = s0\<lparr>workoutPlansGenerated := 1\<rparr>;
          n = length (docs d);
          l1 = calls d @ [FindOne (property ruser ''_id'') (t_query clk), Create s0]
      in if faults (Create s0)
         then (Respond 500 subscription_server_error, \<lparr>docs = docs d, calls = l1\<rparr>)
         else if faults (Save n s1)
         then (Respond 500 subscription_server_error,
               \<lparr>docs = docs d @ [s0], calls = l1 @ [Save n s1]\<rparr>)
         else (Next, \<lparr>docs = docs d @ [s1], calls = l1 @ [Save n s1]\<rparr>))"
  using assms by (simp add: gate_defs)

lemma meal_lazy:
  assumes "truthy (opt_prop ruser ''_id'')"
    and "\<not> faults (FindOne (property ruser ''_id'') (t_query clk))"
    and "first_match (property ruser ''_id'') (t_query clk) 0 (docs d) = None"
  shows "canGenerateMealPlan faults getFullYear setFullYear clk ruser d =
     (let s0 = \<lparr>user = property ruser ''_id'', plan = ''FREE'', startDate = t_start clk,
                endDate = setFullYear (t_end clk) (getFullYear (t_end clk) + 1), active = True,
                workoutPlansGenerated = 0, mealPlansGenerated = 0\<rparr>;
          s1 = s0\<lparr>mealPlansGenerated := 1\<rparr>;
          n = length (docs d);
          l1 = calls d @ [FindOne (property ruser ''_id'') (t_query clk), Create s0]
      in if faults (Create s0)
         then (Respond 500 subscription_server_error, \<lparr>docs = docs d, calls = l1\<rparr>)
         else if faults (Save n s1)
         then (Respond 500 subscription_server_error,
               \<lparr>docs = docs d @ [s0], calls = l1 @ [Save n s1]\<rparr>)
         else (Next, \<lparr>docs = docs d @ [s1], calls = l1 @ [Save n s1]\<rparr>))"
  using assms by (simp add: gate_defs)

lemma first_match_snoc_found:
  assumes "first_match uid t 0 xs = None" and "t \<le> t'" and "matches uid t' s"
  shows "first_match uid t' 0 (xs @ [s]) = Some (length xs, s)"
  using first_match_later[OF assms(1,2)] assms(3) by (simp add: first_match_append)

lemma workout_three_requests:
  fixes faults getFullYear setFullYear c1 c2 c3 ruser d
  defines "uid \<equiv> property ruser ''_id''"
  defines "s0 \<equiv> \<lparr>user = uid, plan = ''FREE'', startDate = t_start c1,
                endDate = setFullYear (t_end c1) (getFullYear (t_end c1) + 1), active = True,
                workoutPlansGenerated = 0, mealPlansGenerated = 0\<rparr>"
  defines "r1 \<equiv> canGenerateWorkoutPlan faults getFullYear setFullYear c1 ruser d"
  defines "r2 \<equiv> canGenerateWorkoutPlan faults getFullYear setFullYear c2 ruser (snd r1)"
  defines "r3 \<equiv> canGenerateWorkoutPlan faults getFullYear setFullYear c3 ruser (snd r2)"
  assumes id: "truthy (opt_prop ruser ''_id'')"
    and nf: "\<forall>c. \<not> faults c"
    and none: "first_match uid (t_query c1) 0 (docs d) = None"
    and t12: "t_query c1 \<le> t_query c2" and t23: "t_query c2 \<le> t_query c3"
    and t3: "t_query c3 \<le> setFullYear (t_end c1) (getFullYear (t_end c1) + 1)"
  shows "fst r1 = Next \<and> docs (snd r1) = docs d @ [s0\<lparr>workoutPlansGenerated := 1\<rparr>] \<and>
         fst r2 = Next \<and> docs (snd r2) = docs d @ [s0\<lparr>workoutPlansGenerated := 2\<rparr>] \<and>
         fst r3 = Respond 403 workout_limit_reached \<and> docs (snd r3) = docs (snd r2)"
proof -
  let ?s1 = "s0\<lparr>workoutPlansGenerated := 1\<rparr>"
  let ?s2 = "s0\<lparr>workoutPlansGenerated := 2\<rparr>"
  have nf': "\<And>c. \<not> faults c" using nf by simp
  have 1: "fst r1 = Next" "docs (snd r1) = docs d @ [?s1]"
    using workout_lazy[where faults = faults and getFullYear = getFullYear
        and setFullYear = setFullYear, OF id nf' none[unfolded uid_def]]
    by (simp_all add: r1_def Let_def nf' s0_def uid_def)
  have m2: "first_match uid (t_query c2) 0 (docs (snd r1)) = Some (length (docs d), ?s1)"
    unfolding 1 using t12 t23 t3
    by (intro first_match_snoc_found[OF none]) (simp_all add: matches_def s0_def)
  have 2: "fst r2 = Next" "docs (snd r2) = docs d @ [?s2]"
    using workout_found[where faults = faults and getFullYear = getFullYear
        and setFullYear = setFullYear, OF id nf' m2[unfolded uid_def]]
    by (simp_all add: r2_def Let_def nf' s0_def 1)
  have m3: "first_match uid (t_query c3) 0 (docs (snd r2)) = Some (length (docs d), ?s2)"
    unfolding 2 using t12 t23 t3
    by (intro first_match_snoc_found[OF none]) (simp_all add: matches_def s0_def)
  have 3: "fst r3 = Respond 403 workout_limit_reached" "docs (snd r3) = docs (snd r2)"
    using workout_found[where faults = faults and getFullYear = getFullYear
        and setFullYear = setFullYear, OF id nf' m3[unfolded uid_def]]
    by (simp_all add: r3_def Let_def nf' s0_def 2)
  from 1 2 3 show ?thesis by simp
qed

text \<open>
  C6. When the subscription found for the user has plan PREMIUM, both the workout gate and
  the meal gate call \<^verbatim>\<open>next()\<close> and leave every stored subscription as it was: the
  only trace of the request is the query itself, and no counter changes.
\<close>

theorem premium_allowed_unchanged:
  assumes "truthy (opt_prop ruser ''_id'')"
    and "\<not> faults (FindOne (property ruser ''_id'') (t_query clk))"
    and "first_match (property ruser ''_id'') (t_query clk) 0 (docs d) = Some (i, s)"
    and "plan s = ''PREMIUM''"
  shows "canGenerateWorkoutPlan faults getFullYear setFullYear clk ruser d =
           (Next, d\<lparr>calls := calls d @ [FindOne (property ruser ''_id'') (t_query clk)]\<rparr>) \<and>
         canGenerateMealPlan faults getFullYear setFullYear clk ruser d =
           (Next, d\<lparr>calls := calls d @ [FindOne (property ruser ''_id'') (t_query clk)]\<rparr>) \<and>
         docs (snd (canGenerateWorkoutPlan faults getFullYear setFullYear clk ruser d)) = docs d \<and>
         docs (snd (canGenerateMealPlan faults getFullYear setFullYear clk ruser d)) = docs d"
  using assms
  by (simp add: workout_found[where faults = faults, OF assms(1-3)]
      meal_found[where faults = faults, OF assms(1-3)])

theorem premium_allowed_unchanged_witness:
  "truthy (opt_prop (JObj [(''_id'', JStr ''u1'')]) ''_id'') \<and>
   first_match (JStr ''u1'') 1000 0
     [\<lparr>user = JStr ''u1'', plan = ''PREMIUM'', startDate = 0, endDate = 5000, active = True,
       workoutPlansGenerated = 7, mealPlansGenerated = 9\<rparr>]
     = Some (0, \<lparr>user = JStr ''u1'', plan = ''PREMIUM'', startDate = 0, endDate = 5000,
                 active = True, workoutPlansGenerated = 7, mealPlansGenerated = 9\<rparr>) \<and>
   canGenerateWorkoutPlan (\<lambda>c. False) (\<lambda>t. t div 31536000000 + 1970)
     (\<lambda>t y. (y - 1970) * 31536000000 + t mod 31536000000)
     \<lparr>t_query = 1000, t_end = 1001, t_start = 1002\<rparr> (JObj [(''_id'', JStr ''u1'')])
     \<lparr>docs = [\<lparr>user = JStr ''u1'', plan = ''PREMIUM'', startDate = 0, endDate = 5000,
               active = True, workoutPlansGenerated = 7, mealPlansGenerated = 9\<rparr>],
      calls = []\<rparr>
   = (Next,
      \<lparr>docs = [\<lparr>user = JStr ''u1'', plan = ''PREMIUM'', startDate = 0, endDate = 5000,
               active = True, workoutPlansGenerated = 7, mealPlansGenerated = 9\<rparr>],
       calls = [FindOne (JStr ''u1'') 1000]\<rparr>) \<and>
   canGenerateMealPlan (\<lambda>c. False) (\<lambda>t. t div 31536000000 + 1970)
     (\<lambda>t y. (y - 1970) * 31536000000 + t mod 31536000000)
     \<lparr>t_query = 1000, t_end = 1001, t_start = 1002\<rparr> (JObj [(''_id'', JStr ''u1'')])
     \<lparr>docs = [\<lparr>user = JStr ''u1'', plan = ''PREMIUM'', startDate = 0, endDate = 5000,
               active = True, workoutPlansGenerated = 7, mealPlansGenerated = 9\<rparr>],
      calls = []\<rparr>
   = (Next,
      \<lparr>docs = [\<lparr>user = JStr ''u1'', plan = ''PREMIUM'', startDate = 0, endDate = 5000,
               active = True, workoutPlansGenerated = 7, mealPlansGenerated = 9\<rparr>],
       calls = [FindOne (JStr ''u1'') 1000]\<rparr>)"
  using premium_allowed_unchanged
    [of "JObj [(''_id'', JStr ''u1'')]" "\<lambda>c. False" "\<lparr>t_query = 1000, t_end = 1001, t_start = 1002\<rparr>"
        "\<lparr>docs = [\<lparr>user = JStr ''u1'', plan = ''PREMIUM'', startDate = 0, endDate = 5000,
               active = True, workoutPlansGenerated = 7, mealPlansGenerated = 9\<rparr>],
          calls = []\<rparr>" 0
        "\<lparr>user = JStr ''u1'', plan = ''PREMIUM'', startDate = 0, endDate = 5000,
               active = True, workoutPlansGenerated = 7, mealPlansGenerated = 9\<rparr>"
        "\<lambda>t. t div 31536000000 + 1970"
        "\<lambda>t y. (y - 1970) * 31536000000 + t mod 31536000000"]
  by (simp add: opt_prop_def property_def matches_def)


text \<open>
  C1. Workout gate, FREE plan. When the subscription found for the user has plan FREE and
  its workout counter is below 2, the gate calls \<^verbatim>\<open>next()\<close> and stores the counter
  incremented by exactly one (the save not failing); when the counter is 2 or more it
  answers 403 with \<^verbatim>\<open>{success:false, message, subscriptionRequired:true}\<close> and stores
  nothing. Hence, for a user with no subscription, three requests made while the created
  subscription has not expired give \<^verbatim>\<open>next()\<close> with counter 1, \<^verbatim>\<open>next()\<close> with
  counter 2, and 403.
\<close>

theorem workout_gate_free_quota:
  fixes faults getFullYear setFullYear clk c1 c2 c3 ruser d i s
  defines "uid \<equiv> property ruser ''_id''"
  defines "s' \<equiv> s\<lparr>workoutPlansGenerated := workoutPlansGenerated s + 1\<rparr>"
  defines "s0 \<equiv> \<lparr>user = uid, plan = ''FREE'', startDate = t_start c1,
                endDate = setFullYear (t_end c1) (getFullYear (t_end c1) + 1), active = True,
                workoutPlansGenerated = 0, mealPlansGenerated = 0\<rparr>"
  defines "r1 \<equiv> canGenerateWorkoutPlan faults getFullYear setFullYear c1 ruser d"
  defines "r2 \<equiv> canGenerateWorkoutPlan faults getFullYear setFullYear c2 ruser (snd r1)"
  defines "r3 \<equiv> canGenerateWorkoutPlan faults getFullYear setFullYear c3 ruser (snd r2)"
  shows
    "(truthy (opt_prop ruser ''_id'') \<and> \<not> faults (FindOne uid (t_query clk)) \<and>
      first_match uid (t_query clk) 0 (docs d) = Some (i, s) \<and> plan s = ''FREE'' \<and>
      workoutPlansGenerated s < 2 \<and> \<not> faults (Save i s')
      \<longrightarrow> canGenerateWorkoutPlan faults getFullYear setFullYear clk ruser d =
            (Next, \<lparr>docs = (docs d)[i := s'],
                    calls = calls d @ [FindOne uid (t_query clk), Save i s']\<rparr>)) \<and>
     (truthy (opt_prop ruser ''_id'') \<and> \<not> faults (FindOne uid (t_query clk)) \<and>
      first_match uid (t_query clk) 0 (docs d) = Some (i, s) \<and> plan s = ''FREE'' \<and>
      2 \<le> workoutPlansGenerated s
      \<longrightarrow> canGenerateWorkoutPlan faults getFullYear setFullYear clk ruser d =
            (Respond 403
               (JObj [(''success'', JBool False),
                      (''message'', JStr ''Free subscription limit reached. Please upgrade to premium to generate more workout plans.''),
                      (''subscriptionRequired'', JBool True)]),
             d\<lparr>calls := calls d @ [FindOne uid (t_query clk)]\<rparr>)) \<and>
     (truthy (opt_prop ruser ''_id'') \<and> (\<forall>c. \<not> faults c) \<and>
      first_match uid (t_query c1) 0 (docs d) = None \<and>
      t_query c1 \<le> t_query c2 \<and> t_query c2 \<le> t_query c3 \<and>
      t_query c3 \<le> setFullYear (t_end c1) (getFullYear (t_end c1) + 1)
      \<longrightarrow> fst r1 = Next \<and> docs (snd r1) = docs d @ [s0\<lparr>workoutPlansGenerated := 1\<rparr>] \<and>
          fst r2 = Next \<and> docs (snd r2) = docs d @ [s0\<lparr>workoutPlansGenerated := 2\<rparr>] \<and>
          fst r3 = Respond 403 workout_limit_reached \<and> docs (snd r3) = docs (snd r2))"
proof (intro conjI impI)
  assume h: "truthy (opt_prop ruser ''_id'') \<and> \<not> faults (FindOne uid (t_query clk)) \<and>
      first_match uid (t_query clk) 0 (docs d) = Some (i, s) \<and> plan s = ''FREE'' \<and>
      workoutPlansGenerated s < 2 \<and> \<not> faults (Save i s')"
  then have f: "truthy (opt_prop ruser ''_id'')"
    "\<not> faults (FindOne (property ruser ''_id'') (t_query clk))"
    "first_match (property ruser ''_id'') (t_query clk) 0 (docs d) = Some (i, s)"
    by (simp_all add: uid_def)
  from h show "canGenerateWorkoutPlan faults getFullYear setFullYear clk ruser d =
            (Next, \<lparr>docs = (docs d)[i := s'],
                    calls = calls d @ [FindOne uid (t_query clk), Save i s']\<rparr>)"
    by (simp add: workout_found[where faults = faults, OF f] uid_def s'_def Let_def)
next
  assume h: "truthy (opt_prop ruser ''_id'') \<and> \<not> faults (FindOne uid (t_query clk)) \<and>
      first_match uid (t_query clk) 0 (docs d) = Some (i, s) \<and> plan s = ''FREE'' \<and>
      2 \<le> workoutPlansGenerated s"
  then have f: "truthy (opt_prop ruser ''_id'')"
    "\<not> faults (FindOne (property ruser ''_id'') (t_query clk))"
    "first_match (property ruser ''_id'') (t_query clk) 0 (docs d) = Some (i, s)"
    by (simp_all add: uid_def)
  from h show "canGenerateWorkoutPlan faults getFullYear setFullYear clk ruser d =
            (Respond 403
               (JObj [(''success'', JBool False),
                      (''message'', JStr ''Free subscription limit reached. Please upgrade to premium to generate more workout plans.''),
                      (''subscriptionRequired'', JBool True)]),
             d\<lparr>calls := calls d @ [FindOne uid (t_query clk)]\<rparr>)"
    by (simp add: workout_found[where faults = faults, OF f] uid_def workout_limit_reached_def Let_def)
next
  assume h: "truthy (opt_prop ruser ''_id'') \<and> (\<forall>c. \<not> faults c) \<and>
      first_match uid (t_query c1) 0 (docs d) = None \<and>
      t_query c1 \<le> t_query c2 \<and> t_query c2 \<le> t_query c3 \<and>
      t_query c3 \<le> setFullYear (t_end c1) (getFullYear (t_end c1) + 1)"
  then have "fst r1 = Next \<and> docs (snd r1) = docs d @ [s0\<lparr>workoutPlansGenerated := 1\<rparr>] \<and>
          fst r2 = Next \<and> docs (snd r2) = docs d @ [s0\<lparr>workoutPlansGenerated := 2\<rparr>] \<and>
          fst r3 = Respond 403 workout_limit_reached \<and> docs (snd r3) = docs (snd r2)"
    unfolding r1_def r2_def r3_def s0_def uid_def
    by (intro workout_three_requests) simp_all
  then show "fst r1 = Next" "docs (snd r1) = docs d @ [s0\<lparr>workoutPlansGenerated := 1\<rparr>]"
    "fst r2 = Next" "docs (snd r2) = docs d @ [s0\<lparr>workoutPlansGenerated := 2\<rparr>]"
    "fst r3 = Respond 403 workout_limit_reached" "docs (snd r3) = docs (snd r2)"
    by simp_all
qed


theorem workout_gate_free_quota_witness:
  "truthy (opt_prop (JObj [(''_id'', JStr ''u1'')]) ''_id'') \<and>
   first_match (JStr ''u1'') 1000 0
     [\<lparr>user = JStr ''u1'', plan = ''FREE'', startDate = 0, endDate = 5000, active = True,
       workoutPlansGenerated = 1, mealPlansGenerated = 0\<rparr>]
     = Some (0, \<lparr>user = JStr ''u1'', plan = ''FREE'', startDate = 0, endDate = 5000,
                 active = True, workoutPlansGenerated = 1, mealPlansGenerated = 0\<rparr>) \<and>
   canGenerateWorkoutPlan (\<lambda>c. False) (\<lambda>t. t div 31536000000 + 1970)
     (\<lambda>t y. (y - 1970) * 31536000000 + t mod 31536000000)
     \<lparr>t_query = 1000, t_end = 1001, t_start = 1002\<rparr> (JObj [(''_id'', JStr ''u1'')])
     \<lparr>docs = [\<lparr>user = JStr ''u1'', plan = ''FREE'', startDate = 0, endDate = 5000,
               active = True, workoutPlansGenerated = 1, mealPlansGenerated = 0\<rparr>],
      calls = []\<rparr>
   = (Next,
      \<lparr>docs = [\<lparr>user = JStr ''u1'', plan = ''FREE'', startDate = 0, endDate = 5000,
               active = True, workoutPlansGenerated = 2, mealPlansGenerated = 0\<rparr>],
       calls = [FindOne (JStr ''u1'') 1000,
                Save 0 \<lparr>user = JStr ''u1'', plan = ''FREE'', startDate = 0, endDate = 5000,
                        active = True, workoutPlansGenerated = 2, mealPlansGenerated = 0\<rparr>]\<rparr>) \<and>
   first_match (JStr ''u1'') 1000 0
     [\<lparr>user = JStr ''u1'', plan = ''FREE'', startDate = 0, endDate = 5000, active = True,
       workoutPlansGenerated = 2, mealPlansGenerated = 0\<rparr>]
     = Some (0, \<lparr>user = JStr ''u1'', plan = ''FREE'', startDate = 0, endDate = 5000,
                 active = True, workoutPlansGenerated = 2, mealPlansGenerated = 0\<rparr>) \<and>
   canGenerateWorkoutPlan (\<lambda>c. False) (\<lambda>t. t div 31536000000 + 1970)
     (\<lambda>t y. (y - 1970) * 31536000000 + t mod 31536000000)
     \<lparr>t_query = 1000, t_end = 1001, t_start = 1002\<rparr> (JObj [(''_id'', JStr ''u1'')])
     \<lparr>docs = [\<lparr>user = JStr ''u1'', plan = ''FREE'', startDate = 0, endDate = 5000,
               active = True, workoutPlansGenerated = 2, mealPlansGenerated = 0\<rparr>],
      calls = []\<rparr>
   = (Respond 403
        (JObj [(''success'', JBool False),
               (''message'', JStr ''Free subscription limit reached. Please upgrade to premium to generate more workout plans.''),
               (''subscriptionRequired'', JBool True)]),
      \<lparr>docs = [\<lparr>user = JStr ''u1'', plan = ''FREE'', startDate = 0, endDate = 5000,
               active = True, workoutPlansGenerated = 2, mealPlansGenerated = 0\<rparr>],
       calls = [FindOne (JStr ''u1'') 1000]\<rparr>) \<and>
   first_match (JStr ''u1'') 1000 0 [] = None \<and>
   (1000::int) \<le> 2000 \<and> (2000::int) \<le> 3000 \<and> (3000::int) \<le> 1001 + 31536000000 \<and>
   fst (canGenerateWorkoutPlan (\<lambda>c. False) (\<lambda>t. t div 31536000000 + 1970)
     (\<lambda>t y. (y - 1970) * 31536000000 + t mod 31536000000)
          \<lparr>t_query = 3000, t_end = 3001, t_start = 3002\<rparr> (JObj [(''_id'', JStr ''u1'')])
          (snd (canGenerateWorkoutPlan (\<lambda>c. False) (\<lambda>t. t div 31536000000 + 1970)
     (\<lambda>t y. (y - 1970) * 31536000000 + t mod 31536000000)
             \<lparr>t_query = 2000, t_end = 2001, t_start = 2002\<rparr> (JObj [(''_id'', JStr ''u1'')])
             (snd (canGenerateWorkoutPlan (\<lambda>c. False) (\<lambda>t. t div 31536000000 + 1970)
     (\<lambda>t y. (y - 1970) * 31536000000 + t mod 31536000000)
                \<lparr>t_query = 1000, t_end = 1001, t_start = 1002\<rparr> (JObj [(''_id'', JStr ''u1'')])
                \<lparr>docs = [], calls = []\<rparr>)))))
   = Respond 403 workout_limit_reached"
  using
    workout_gate_free_quota
      [where faults = "\<lambda>c. False" and getFullYear = "\<lambda>t. t div 31536000000 + 1970"
         and setFullYear = "\<lambda>t y. (y - 1970) * 31536000000 + t mod 31536000000"
         and clk = "\<lparr>t_query = 1000, t_end = 1001, t_start = 1002\<rparr>"
         and ruser = "JObj [(''_id'', JStr ''u1'')]" and i = 0
         and s = "\<lparr>user = JStr ''u1'', plan = ''FREE'', startDate = 0, endDate = 5000,
                   active = True, workoutPlansGenerated = 1, mealPlansGenerated = 0\<rparr>"
         and d = "\<lparr>docs = [\<lparr>user = JStr ''u1'', plan = ''FREE'', startDate = 0,
                   endDate = 5000, active = True, workoutPlansGenerated = 1,
                   mealPlansGenerated = 0\<rparr>], calls = []\<rparr>"
         and ?c1.0 = "\<lparr>t_query = 1000, t_end = 1001, t_start = 1002\<rparr>"
         and ?c2.0 = "\<lparr>t_query = 2000, t_end = 2001, t_start = 2002\<rparr>"
         and ?c3.0 = "\<lparr>t_query = 3000, t_end = 3001, t_start = 3002\<rparr>"]
    workout_gate_free_quota
      [where faults = "\<lambda>c. False" and getFullYear = "\<lambda>t. t div 31536000000 + 1970"
         and setFullYear = "\<lambda>t y. (y - 1970) * 31536000000 + t mod 31536000000"
         and clk = "\<lparr>t_query = 1000, t_end = 1001, t_start = 1002\<rparr>"
         and ruser = "JObj [(''_id'', JStr ''u1'')]" and i = 0
         and s = "\<lparr>user = JStr ''u1'', plan = ''FREE'', startDate = 0, endDate = 5000,
                   active = True, workoutPlansGenerated = 2, mealPlansGenerated = 0\<rparr>"
         and d = "\<lparr>docs = [\<lparr>user = JStr ''u1'', plan = ''FREE'', startDate = 0,
                   endDate = 5000, active = True, workoutPlansGenerated = 2,
                   mealPlansGenerated = 0\<rparr>], calls = []\<rparr>"
         and ?c1.0 = "\<lparr>t_query = 1000, t_end = 1001, t_start = 1002\<rparr>"
         and ?c2.0 = "\<lparr>t_query = 2000, t_end = 2001, t_start = 2002\<rparr>"
         and ?c3.0 = "\<lparr>t_query = 3000, t_end = 3001, t_start = 3002\<rparr>"]
    workout_gate_free_quota
      [where faults = "\<lambda>c. False" and getFullYear = "\<lambda>t. t div 31536000000 + 1970"
         and setFullYear = "\<lambda>t y. (y - 1970) * 31536000000 + t mod 31536000000"
         and clk = "\<lparr>t_query = 1000, t_end = 1001, t_start = 1002\<rparr>"
         and ruser = "JObj [(''_id'', JStr ''u1'')]" and i = 0
         and s = "\<lparr>user = JStr ''u1'', plan = ''FREE'', startDate = 0, endDate = 5000,
                   active = True, workoutPlansGenerated = 2, mealPlansGenerated = 0\<rparr>"
         and d = "\<lparr>docs = [], calls = []\<rparr>"
         and ?c1.0 = "\<lparr>t_query = 1000, t_end = 1001, t_start = 1002\<rparr>"
         and ?c2.0 = "\<lparr>t_query = 2000, t_end = 2001, t_start = 2002\<rparr>"
         and ?c3.0 = "\<lparr>t_query = 3000, t_end = 3001, t_start = 3002\<rparr>"]
  by (simp add: opt_prop_def property_def matches_def)


text \<open>
  C5. Lazy creation. When the query finds no subscription of the user that is active and
  ends at or after the query's instant, each gate makes exactly one \<^verbatim>\<open>create\<close> call, for
  a subscription with plan FREE, \<open>active\<close> true, both counters 0, \<open>startDate\<close> the clock
  reading taken for it, and \<open>endDate\<close> the clock reading taken for it with its year set
  to that reading's year plus 1. The call comes right after the query and before the save
  that records the quota decision; the collection grows by that one document, which the
  request's own save then holds with the relevant counter incremented. Since
  \<^verbatim>\<open>getFullYear\<close> reads back the year \<^verbatim>\<open>setFullYear\<close> has set, the year of \<open>endDate\<close> is
  the year of its reading plus 1; and when the two readings are the same instant,
  \<open>endDate\<close> is \<open>startDate\<close> with its year raised by 1.
\<close>

theorem gate_lazy_creation:
  fixes faults getFullYear setFullYear clk ruser d
  defines "uid \<equiv> property ruser ''_id''"
  defines "s0 \<equiv> \<lparr>user = uid, plan = ''FREE'', startDate = t_start clk,
                endDate = setFullYear (t_end clk) (getFullYear (t_end clk) + 1), active = True,
                workoutPlansGenerated = 0, mealPlansGenerated = 0\<rparr>"
  defines "n \<equiv> length (docs d)"
  defines "w \<equiv> snd (canGenerateWorkoutPlan faults getFullYear setFullYear clk ruser d)"
  defines "m \<equiv> snd (canGenerateMealPlan faults getFullYear setFullYear clk ruser d)"
  assumes "truthy (opt_prop ruser ''_id'')"
    and "\<not> faults (FindOne uid (t_query clk))"
    and "first_match uid (t_query clk) 0 (docs d) = None"
    and "\<not> faults (Create s0)"
  shows "calls w = calls d @ [FindOne uid (t_query clk), Create s0,
                              Save n (s0\<lparr>workoutPlansGenerated := 1\<rparr>)] \<and>
         length (docs w) = n + 1 \<and> take n (docs w) = docs d \<and>
         (docs w ! n = s0 \<or> docs w ! n = s0\<lparr>workoutPlansGenerated := 1\<rparr>) \<and>
         calls m = calls d @ [FindOne uid (t_query clk), Create s0,
                              Save n (s0\<lparr>mealPlansGenerated := 1\<rparr>)] \<and>
         length (docs m) = n + 1 \<and> take n (docs m) = docs d \<and>
         (docs m ! n = s0 \<or> docs m ! n = s0\<lparr>mealPlansGenerated := 1\<rparr>) \<and>
         plan (docs w ! n) = ''FREE'' \<and> active (docs w ! n) \<and>
         startDate (docs w ! n) = t_start clk \<and>
         endDate (docs w ! n) = setFullYear (t_end clk) (getFullYear (t_end clk) + 1) \<and>
         plan (docs m ! n) = ''FREE'' \<and> active (docs m ! n) \<and>
         startDate (docs m ! n) = t_start clk \<and>
         endDate (docs m ! n) = setFullYear (t_end clk) (getFullYear (t_end clk) + 1) \<and>
         ((\<forall>t y. getFullYear (setFullYear t y) = y) \<longrightarrow>
            getFullYear (endDate (docs w ! n)) = getFullYear (t_end clk) + 1 \<and>
            getFullYear (endDate (docs m ! n)) = getFullYear (t_end clk) + 1) \<and>
         (t_start clk = t_end clk \<longrightarrow>
            endDate (docs w ! n) =
              setFullYear (startDate (docs w ! n)) (getFullYear (startDate (docs w ! n)) + 1) \<and>
            endDate (docs m ! n) =
              setFullYear (startDate (docs m ! n)) (getFullYear (startDate (docs m ! n)) + 1))"
proof -
  have f: "truthy (opt_prop ruser ''_id'')"
    "\<not> faults (FindOne (property ruser ''_id'') (t_query clk))"
    "first_match (property ruser ''_id'') (t_query clk) 0 (docs d) = None"
    using assms by (simp_all add: uid_def)
  have c: "\<not> faults (Create \<lparr>user = property ruser ''_id'', plan = ''FREE'',
      startDate = t_start clk,
      endDate = setFullYear (t_end clk) (getFullYear (t_end clk) + 1), active = True,
      workoutPlansGenerated = 0, mealPlansGenerated = 0\<rparr>)"
    using assms by (simp add: uid_def s0_def)
  have W: "calls w = calls d @ [FindOne uid (t_query clk), Create s0,
                              Save n (s0\<lparr>workoutPlansGenerated := 1\<rparr>)] \<and>
         length (docs w) = n + 1 \<and> take n (docs w) = docs d \<and>
         (docs w ! n = s0 \<or> docs w ! n = s0\<lparr>workoutPlansGenerated := 1\<rparr>)"
    using c unfolding w_def workout_lazy[where faults = faults, OF f]
    by (simp add: Let_def uid_def s0_def n_def)
  have M: "calls m = calls d @ [FindOne uid (t_query clk), Create s0,
                              Save n (s0\<lparr>mealPlansGenerated := 1\<rparr>)] \<and>
         length (docs m) = n + 1 \<and> take n (docs m) = docs d \<and>
         (docs m ! n = s0 \<or> docs m ! n = s0\<lparr>mealPlansGenerated := 1\<rparr>)"
    using c unfolding m_def meal_lazy[where faults = faults, OF f]
    by (simp add: Let_def uid_def s0_def n_def)
  from W have Wf: "plan (docs w ! n) = ''FREE''" "active (docs w ! n)"
    "startDate (docs w ! n) = t_start clk"
    "endDate (docs w ! n) = setFullYear (t_end clk) (getFullYear (t_end clk) + 1)"
    by (auto simp: s0_def)
  from M have Mf: "plan (docs m ! n) = ''FREE''" "active (docs m ! n)"
    "startDate (docs m ! n) = t_start clk"
    "endDate (docs m ! n) = setFullYear (t_end clk) (getFullYear (t_end clk) + 1)"
    by (auto simp: s0_def)
  have Y: "(\<forall>t y. getFullYear (setFullYear t y) = y) \<longrightarrow>
            getFullYear (endDate (docs w ! n)) = getFullYear (t_end clk) + 1 \<and>
            getFullYear (endDate (docs m ! n)) = getFullYear (t_end clk) + 1"
    by (simp add: Wf Mf)
  have S: "t_start clk = t_end clk \<longrightarrow>
            endDate (docs w ! n) =
              setFullYear (startDate (docs w ! n)) (getFullYear (startDate (docs w ! n)) + 1) \<and>
            endDate (docs m ! n) =
              setFullYear (startDate (docs m ! n)) (getFullYear (startDate (docs m ! n)) + 1)"
    by (simp add: Wf Mf)
  from W M Wf Mf Y S show ?thesis by blast
qed

theorem gate_lazy_creation_witness:
  "truthy (opt_prop (JObj [(''_id'', JStr ''u1'')]) ''_id'') \<and>
   first_match (JStr ''u1'') 1000 0
     [\<lparr>user = JStr ''u1'', plan = ''FREE'', startDate = 0, endDate = 999, active = True,
       workoutPlansGenerated = 2, mealPlansGenerated = 2\<rparr>] = None \<and>
   (\<forall>t y::int. ((y - 1970) * 31536000000 + t mod 31536000000) div 31536000000 + 1970 = y) \<and>
   calls (snd (canGenerateWorkoutPlan (\<lambda>c. False) (\<lambda>t. t div 31536000000 + 1970)
     (\<lambda>t y. (y - 1970) * 31536000000 + t mod 31536000000)
     \<lparr>t_query = 1000, t_end = 1001, t_start = 1001\<rparr> (JObj [(''_id'', JStr ''u1'')])
     \<lparr>docs = [\<lparr>user = JStr ''u1'', plan = ''FREE'', startDate = 0, endDate = 999,
               active = True, workoutPlansGenerated = 2, mealPlansGenerated = 2\<rparr>],
      calls = []\<rparr>))
   = [FindOne (JStr ''u1'') 1000,
      Create \<lparr>user = JStr ''u1'', plan = ''FREE'', startDate = 1001, endDate = 31536001001,
              active = True, workoutPlansGenerated = 0, mealPlansGenerated = 0\<rparr>,
      Save 1 \<lparr>user = JStr ''u1'', plan = ''FREE'', startDate = 1001, endDate = 31536001001,
              active = True, workoutPlansGenerated = 1, mealPlansGenerated = 0\<rparr>] \<and>
   calls (snd (canGenerateMealPlan (\<lambda>c. False) (\<lambda>t. t div 31536000000 + 1970)
     (\<lambda>t y. (y - 1970) * 31536000000 + t mod 31536000000)
     \<lparr>t_query = 1000, t_end = 1001, t_start = 1001\<rparr> (JObj [(''_id'', JStr ''u1'')])
     \<lparr>docs = [\<lparr>user = JStr ''u1'', plan = ''FREE'', startDate = 0, endDate = 999,
               active = True, workoutPlansGenerated = 2, mealPlansGenerated = 2\<rparr>],
      calls = []\<rparr>))
   = [FindOne (JStr ''u1'') 1000,
      Create \<lparr>user = JStr ''u1'', plan = ''FREE'', startDate = 1001, endDate = 31536001001,
              active = True, workoutPlansGenerated = 0, mealPlansGenerated = 0\<rparr>,
      Save 1 \<lparr>user = JStr ''u1'', plan = ''FREE'', startDate = 1001, endDate = 31536001001,
              active = True, workoutPlansGenerated = 0, mealPlansGenerated = 1\<rparr>] \<and>
   (1001::int) div 31536000000 + 1970 = 1970 \<and>
   (31536001001::int) div 31536000000 + 1970 = 1971"
proof -
  have law: "\<forall>t y::int. ((y - 1970) * 31536000000 + t mod 31536000000) div 31536000000 + 1970 = y"
  proof (intro allI)
    fix t y :: int
    have "((y - 1970) * 31536000000 + t mod 31536000000) div 31536000000
          = (y - 1970) + (t mod 31536000000) div 31536000000"
      by (rule div_mult_self3) simp
    then show "((y - 1970) * 31536000000 + t mod 31536000000) div 31536000000 + 1970 = y"
      by (simp only: mod_div_trivial)
  qed
  from gate_lazy_creation
      [where faults = "\<lambda>c. False" and getFullYear = "\<lambda>t. t div 31536000000 + 1970"
         and setFullYear = "\<lambda>t y. (y - 1970) * 31536000000 + t mod 31536000000"
         and clk = "\<lparr>t_query = 1000, t_end = 1001, t_start = 1001\<rparr>"
         and ruser = "JObj [(''_id'', JStr ''u1'')]"
         and d = "\<lparr>docs = [\<lparr>user = JStr ''u1'', plan = ''FREE'', startDate = 0,
                   endDate = 999, active = True, workoutPlansGenerated = 2,
                   mealPlansGenerated = 2\<rparr>], calls = []\<rparr>"]
    law
  show ?thesis
    by (simp add: opt_prop_def property_def matches_def)
qed

text \<open>
  C9. In the branch that creates the subscription, the record \<^verbatim>\<open>create\<close> returns is the
  one just built, with both counters 0, so the test \<^verbatim>\<open>counter >= 2\<close> on it fails: neither
  gate ever answers 403 there, and when the create and the save succeed the request is
  let through with the relevant counter stored as 1.
\<close>

theorem lazy_branch_never_rejects:
  fixes faults getFullYear setFullYear clk ruser d
  defines "uid \<equiv> property ruser ''_id''"
  defines "s0 \<equiv> \<lparr>user = uid, plan = ''FREE'', startDate = t_start clk,
                endDate = setFullYear (t_end clk) (getFullYear (t_end clk) + 1), active = True,
                workoutPlansGenerated = 0, mealPlansGenerated = 0\<rparr>"
  defines "n \<equiv> length (docs d)"
  defines "l \<equiv> calls d @ [FindOne uid (t_query clk), Create s0]"
  assumes "truthy (opt_prop ruser ''_id'')"
    and "\<not> faults (FindOne uid (t_query clk))"
    and "first_match uid (t_query clk) 0 (docs d) = None"
  shows "(\<forall>d1 i ns d2. create faults s0 d1 = (Inr (i, ns), d2) \<longrightarrow>
            \<not> (plan ns = ''FREE'' \<and> 2 \<le> workoutPlansGenerated ns) \<and>
            \<not> (plan ns = ''FREE'' \<and> 2 \<le> mealPlansGenerated ns)) \<and>
         (\<forall>b. fst (canGenerateWorkoutPlan faults getFullYear setFullYear clk ruser d) \<noteq> Respond 403 b) \<and>
         (\<forall>b. fst (canGenerateMealPlan faults getFullYear setFullYear clk ruser d) \<noteq> Respond 403 b) \<and>
         (\<not> faults (Create s0) \<and> \<not> faults (Save n (s0\<lparr>workoutPlansGenerated := 1\<rparr>)) \<longrightarrow>
            canGenerateWorkoutPlan faults getFullYear setFullYear clk ruser d =
              (Next, \<lparr>docs = docs d @ [s0\<lparr>workoutPlansGenerated := 1\<rparr>],
                      calls = l @ [Save n (s0\<lparr>workoutPlansGenerated := 1\<rparr>)]\<rparr>)) \<and>
         (\<not> faults (Create s0) \<and> \<not> faults (Save n (s0\<lparr>mealPlansGenerated := 1\<rparr>)) \<longrightarrow>
            canGenerateMealPlan faults getFullYear setFullYear clk ruser d =
              (Next, \<lparr>docs = docs d @ [s0\<lparr>mealPlansGenerated := 1\<rparr>],
                      calls = l @ [Save n (s0\<lparr>mealPlansGenerated := 1\<rparr>)]\<rparr>))"
proof -
  have f: "truthy (opt_prop ruser ''_id'')"
    "\<not> faults (FindOne (property ruser ''_id'') (t_query clk))"
    "first_match (property ruser ''_id'') (t_query clk) 0 (docs d) = None"
    using assms by (simp_all add: uid_def)
  have 1: "\<forall>d1 i ns d2. create faults s0 d1 = (Inr (i, ns), d2) \<longrightarrow>
            \<not> (plan ns = ''FREE'' \<and> 2 \<le> workoutPlansGenerated ns) \<and>
            \<not> (plan ns = ''FREE'' \<and> 2 \<le> mealPlansGenerated ns)"
    by (auto simp: create_def Let_def s0_def split: if_splits)
  have 2: "\<forall>b. fst (canGenerateWorkoutPlan faults getFullYear setFullYear clk ruser d) \<noteq> Respond 403 b"
    unfolding workout_lazy[where faults = faults, OF f] by (simp add: Let_def)
  have 3: "\<forall>b. fst (canGenerateMealPlan faults getFullYear setFullYear clk ruser d) \<noteq> Respond 403 b"
    unfolding meal_lazy[where faults = faults, OF f] by (simp add: Let_def)
  have 4: "\<not> faults (Create s0) \<and> \<not> faults (Save n (s0\<lparr>workoutPlansGenerated := 1\<rparr>)) \<longrightarrow>
            canGenerateWorkoutPlan faults getFullYear setFullYear clk ruser d =
              (Next, \<lparr>docs = docs d @ [s0\<lparr>workoutPlansGenerated := 1\<rparr>],
                      calls = l @ [Save n (s0\<lparr>workoutPlansGenerated := 1\<rparr>)]\<rparr>)"
    unfolding workout_lazy[where faults = faults, OF f]
    by (simp add: Let_def uid_def s0_def n_def l_def)
  have 5: "\<not> faults (Create s0) \<and> \<not> faults (Save n (s0\<lparr>mealPlansGenerated := 1\<rparr>)) \<longrightarrow>
            canGenerateMealPlan faults getFullYear setFullYear clk ruser d =
              (Next, \<lparr>docs = docs d @ [s0\<lparr>mealPlansGenerated := 1\<rparr>],
                      calls = l @ [Save n (s0\<lparr>mealPlansGenerated := 1\<rparr>)]\<rparr>)"
    unfolding meal_lazy[where faults = faults, OF f]
    by (simp add: Let_def uid_def s0_def n_def l_def)
  from 1 2 3 4 5 show ?thesis by blast
qed

theorem lazy_branch_never_rejects_witness:
  "truthy (opt_prop (JObj [(''_id'', JStr ''u1'')]) ''_id'') \<and>
   first_match (JStr ''u1'') 1000 0 [] = None \<and>
   canGenerateWorkoutPlan (\<lambda>c. False) (\<lambda>t. t div 31536000000 + 1970)
     (\<lambda>t y. (y - 1970) * 31536000000 + t mod 31536000000)
     \<lparr>t_query = 1000, t_end = 1001, t_start = 1002\<rparr> (JObj [(''_id'', JStr ''u1'')])
     \<lparr>docs = [], calls = []\<rparr>
   = (Next,
      \<lparr>docs = [\<lparr>user = JStr ''u1'', plan = ''FREE'', startDate = 1002, endDate = 31536001001,
               active = True, workoutPlansGenerated = 1, mealPlansGenerated = 0\<rparr>],
       calls = [FindOne (JStr ''u1'') 1000,
          Create \<lparr>user = JStr ''u1'', plan = ''FREE'', startDate = 1002, endDate = 31536001001,
                  active = True, workoutPlansGenerated = 0, mealPlansGenerated = 0\<rparr>,
          Save 0 \<lparr>user = JStr ''u1'', plan = ''FREE'', startDate = 1002, endDate = 31536001001,
                  active = True, workoutPlansGenerated = 1, mealPlansGenerated = 0\<rparr>]\<rparr>) \<and>
   canGenerateMealPlan (\<lambda>c. False) (\<lambda>t. t div 31536000000 + 1970)
     (\<lambda>t y. (y - 1970) * 31536000000 + t mod 31536000000)
     \<lparr>t_query = 1000, t_end = 1001, t_start = 1002\<rparr> (JObj [(''_id'', JStr ''u1'')])
     \<lparr>docs = [], calls = []\<rparr>
   = (Next,
      \<lparr>docs = [\<lparr>user = JStr ''u1'', plan = ''FREE'', startDate = 1002, endDate = 31536001001,
               active = True, workoutPlansGenerated = 0, mealPlansGenerated = 1\<rparr>],
       calls = [FindOne (JStr ''u1'') 1000,
          Create \<lparr>user = JStr ''u1'', plan = ''FREE'', startDate = 1002, endDate = 31536001001,
                  active = True, workoutPlansGenerated = 0, mealPlansGenerated = 0\<rparr>,
          Save 0 \<lparr>user = JStr ''u1'', plan = ''FREE'', startDate = 1002, endDate = 31536001001,
                  active = True, workoutPlansGenerated = 0, mealPlansGenerated = 1\<rparr>]\<rparr>)"
  using lazy_branch_never_rejects
      [where faults = "\<lambda>c. False" and getFullYear = "\<lambda>t. t div 31536000000 + 1970"
         and setFullYear = "\<lambda>t y. (y - 1970) * 31536000000 + t mod 31536000000"
         and clk = "\<lparr>t_query = 1000, t_end = 1001, t_start = 1002\<rparr>"
         and ruser = "JObj [(''_id'', JStr ''u1'')]"
         and d = "\<lparr>docs = [], calls = []\<rparr>"]
  by (simp add: opt_prop_def property_def matches_def)

section \<open>Properties of workout plan generation\<close>

lemma property_put:
  "is_container v \<Longrightarrow> property (put v k x) k' = (if k' = k then x else property v k')"
  by (cases v) (simp_all add: property_def set_field_def update_conv)

lemma property_not_container: "\<not> is_container v \<Longrightarrow> property v k = JUndefined"
  by (cases v) (simp_all add: property_def)

lemma set_prop_property: "set_prop e k x = Inr e' \<Longrightarrow> property e' k = x"
  by (cases e) (auto simp: property_def set_field_def update_conv)

lemma enrich_exercise_Inr:
  assumes "enrich_exercise vid n e = Inr (e', n')"
  shows "n' = Suc n \<and> (\<exists>url. vid n (property e ''name'') = Inr url \<and> set_prop e ''gif_url'' url = Inr e')"
  using assms
  by (auto simp: enrich_exercise_def get_prop_def split: if_splits sum.splits)

lemma enrich_exercises_Inr:
  "enrich_exercises vid n es = Inr (es', n') \<Longrightarrow> n' = n + length es \<and> enriched vid n es es'"
proof (induction es arbitrary: n es' n')
  case Nil
  then show ?case by simp
next
  case (Cons e es)
  from Cons.prems obtain e1 n1 es1 where
    1: "enrich_exercise vid n e = Inr (e1, n1)" and
    2: "enrich_exercises vid n1 es = Inr (es1, n')" and 3: "es' = e1 # es1"
    by (auto split: sum.splits)
  from enrich_exercise_Inr[OF 1] Cons.IH[OF 2] 3 show ?case by auto
qed

lemma enriched_length: "enriched vid n es es' \<Longrightarrow> length es' = length es"
  by (induction vid n es es' rule: enriched.induct) auto

lemma enriched_append:
  "enriched vid n a a' \<Longrightarrow> enriched vid (n + length a) b b' \<Longrightarrow> enriched vid n (a @ b) (a' @ b')"
  by (induction vid n a a' rule: enriched.induct) auto

lemma enriched_nth:
  "enriched vid n es es' \<Longrightarrow> j < length es \<Longrightarrow>
     \<exists>url. vid (n + j) (property (es ! j) ''name'') = Inr url \<and>
           set_prop (es ! j) ''gif_url'' url = Inr (es' ! j)"
proof (induction vid n es es' arbitrary: j rule: enriched.induct)
  case (2 vid n e es e' es')
  show ?case
  proof (cases j)
    case 0
    with "2.prems" show ?thesis by (auto split: sum.splits)
  next
    case (Suc i)
    with "2.prems" have "enriched vid (Suc n) es es'" "i < length es" by auto
    from "2.IH"[OF this] Suc show ?thesis by simp
  qed
qed auto

lemma enrich_chars_fail:
  "enrich_exercises vid n (map (\<lambda>c. JStr [c]) s) = Inr r \<Longrightarrow> s = []"
  by (cases s) (auto simp: enrich_exercise_def get_prop_def split: sum.splits)

lemma enrich_section_Inr:
  assumes "enrich_section vid n v = Inr (v', n')"
  shows "n' = n + length (section_exercises v) \<and>
         enriched vid n (section_exercises v) (section_exercises v')"
proof -
  from assms obtain ex es es' where
    g: "get_prop v ''exercises'' = Inr ex" and f: "for_of ex = Inr es"
    and e: "enrich_exercises vid n es = Inr (es', n')"
    and v': "v' = put v ''exercises'' (with_elements ex es')"
    by (auto simp: enrich_section_def split: sum.splits)
  from g have ex: "ex = property v ''exercises''" by (auto simp: get_prop_def split: if_splits)
  from f have "ex \<noteq> JUndefined" by auto
  with ex have c: "is_container v" using property_not_container by metis
  have se: "section_exercises v = es" using f ex by (simp add: section_exercises_def)
  have "for_of (with_elements ex es') = Inr es'"
  proof (cases ex)
    case (JStr s)
    with f e have "s = []" using enrich_chars_fail by auto
    with JStr f e show ?thesis by auto
  qed (use f in auto)
  then have "section_exercises v' = es'"
    by (simp add: section_exercises_def v' property_put[OF c])
  with se enrich_exercises_Inr[OF e] show ?thesis by simp
qed

lemma enrich_sections_Inr:
  "enrich_sections vid n vs = Inr (vs', n') \<Longrightarrow>
     length vs' = length vs \<and>
     n' = n + length (concat (map section_exercises vs)) \<and>
     enriched vid n (concat (map section_exercises vs)) (concat (map section_exercises vs'))"
proof (induction vs arbitrary: n vs' n')
  case Nil
  then show ?case by simp
next
  case (Cons v vs)
  from Cons.prems obtain v1 n1 vs1 where
    1: "enrich_section vid n v = Inr (v1, n1)" and
    2: "enrich_sections vid n1 vs = Inr (vs1, n')" and 3: "vs' = v1 # vs1"
    by (auto split: sum.splits)
  from enrich_section_Inr[OF 1] Cons.IH[OF 2] 3 show ?case
    by (auto intro: enriched_append)
qed

lemma enrich_days_chars_fail:
  "enrich_sections vid n (map (\<lambda>c. JStr [c]) s) = Inr r \<Longrightarrow> s = []"
  by (cases s) (auto simp: enrich_section_def get_prop_def property_def split: sum.splits)

lemma key_values_rebuilt:
  assumes "key_values dw = Inr vs" and "enrich_sections vid n vs = Inr (vs', n')"
  shows "key_values (with_key_values dw vs') = Inr vs'"
proof -
  have len: "length vs' = length vs" using enrich_sections_Inr[OF assms(2)] by simp
  show ?thesis
  proof (cases dw)
    case (JStr s)
    with assms have "s = []" using enrich_days_chars_fail by auto
    with JStr assms show ?thesis by auto
  next
    case (JObj kvs)
    with assms len show ?thesis by (auto simp: map_snd_zip)
  next
    case (JArr xs ps)
    with assms len show ?thesis by (auto simp: map_snd_zip)
  qed (use assms in auto)
qed

lemma enrich_plan_Inr:
  assumes "enrich_plan vid p = Inr p'"
  shows "enriched vid 0 (plan_exercises p) (plan_exercises p')"
proof -
  let ?dw = "property p ''daily_workouts''"
  from assms obtain vs vs' n1 warm' n2 cool' n3 where
    k: "key_values ?dw = Inr vs" and
    d: "enrich_sections vid 0 vs = Inr (vs', n1)" and
    w: "enrich_section vid n1 (property (put p ''daily_workouts'' (with_key_values ?dw vs')) ''warm_up'')
          = Inr (warm', n2)" and
    c: "enrich_section vid n2
          (property (put (put p ''daily_workouts'' (with_key_values ?dw vs')) ''warm_up'' warm') ''cool_down'')
          = Inr (cool', n3)" and
    p': "p' = put (put (put p ''daily_workouts'' (with_key_values ?dw vs')) ''warm_up'' warm')
                ''cool_down'' cool'"
    by (auto simp: enrich_plan_def Let_def split: sum.splits)
  from k have "?dw \<noteq> JUndefined" by auto
  then have cp: "is_container p" using property_not_container by metis
  then have c1: "is_container (put p k x)" for k x by (cases p) auto
  then have c2: "is_container (put (put p k x) k' x')" for k x k' x'
    by (metis is_container.simps(1,2) put.simps(1,2) is_container.elims(2))
  have kv': "key_values (with_key_values ?dw vs') = Inr vs'" by (rule key_values_rebuilt[OF k d])
  from w have w0: "enrich_section vid n1 (property p ''warm_up'') = Inr (warm', n2)"
    by (simp add: property_put[OF cp])
  from c have c0: "enrich_section vid n2 (property p ''cool_down'') = Inr (cool', n3)"
    by (simp add: property_put[OF cp] property_put[OF c1])
  have out: "plan_exercises p' =
      concat (map section_exercises vs') @ section_exercises warm' @ section_exercises cool'"
    by (simp add: plan_exercises_def p' property_put[OF cp] property_put[OF c1] property_put[OF c2] kv')
  have inp: "plan_exercises p =
      concat (map section_exercises vs) @ section_exercises (property p ''warm_up'')
        @ section_exercises (property p ''cool_down'')"
    by (simp add: plan_exercises_def k)
  from enrich_sections_Inr[OF d] enrich_section_Inr[OF w0] enrich_section_Inr[OF c0]
  show ?thesis unfolding out inp
    by (auto intro!: enriched_append)
qed


lemma nullish_property: "nullish v \<Longrightarrow> property v k = JUndefined"
  by (cases v) (simp_all add: property_def)

lemma generator_returns: "\<exists>out. workoutPlanGenerator P G V a = Inr out"
  by (simp add: workoutPlanGenerator_def split: sum.splits)

lemma try_prompt_throws: "P a = Inl e \<Longrightarrow> generator_try P G V a = Inl e"
  by (simp add: generator_try_def)

lemma try_gemini_throws: "P a = Inr p \<Longrightarrow> G p = Inl e \<Longrightarrow> generator_try P G V a = Inl e"
  by (simp add: generator_try_def)

lemma try_response_nullish:
  "P a = Inr p \<Longrightarrow> G p = Inr r \<Longrightarrow> nullish r \<Longrightarrow> \<exists>e. generator_try P G V a = Inl e"
  by (simp add: generator_try_def get_prop_def)

lemma try_ai_failure:
  assumes "P a = Inr p" and "G p = Inr r" and "\<not> nullish r"
    and "\<not> truthy (property r ''success'')"
  shows "generator_try P G V a =
     Inr (JObj [(''success'', JBool False),
                (''message'', if truthy (property r ''message'') then property r ''message''
                              else JStr ''Failed to generate workout plan''),
                (''error'', property r ''error'')])"
  using assms by (simp add: generator_try_def get_prop_def)

lemma try_validated:
  assumes "P a = Inr p" and "G p = Inr r" and "truthy (property r ''success'')"
    and "truthy (property r ''data'')"
    and "isWorkoutPlan (property r ''data'') = Inr (JBool True)"
    and "truthy (property (property r ''data'') ''workout_plan'')"
  shows "generator_try P G V a =
     (case enrich_plan V (property (property r ''data'') ''workout_plan'') of
        Inl e \<Rightarrow> Inl e
      | Inr workoutPlan \<Rightarrow>
          Inr (JObj [(''success'', JBool True),
                     (''message'', JStr ''Workout plan generated successfully''),
                     (''data'', JObj [(''workout_plan'', workoutPlan)])]))"
proof -
  from assms(3) have "\<not> nullish r" using nullish_property by fastforce
  with assms show ?thesis by (simp add: generator_try_def get_prop_def)
qed

lemma try_not_validated:
  assumes "P a = Inr p" and "G p = Inr r" and "truthy (property r ''success'')"
    and "\<not> truthy (property r ''data'') \<or>
         (\<exists>g. isWorkoutPlan (property r ''data'') = Inr g \<and> \<not> truthy g) \<or>
         (\<exists>g. isWorkoutPlan (property r ''data'') = Inr g \<and>
              \<not> truthy (property (property r ''data'') ''workout_plan''))"
  shows "generator_try P G V a = Inr invalid_plan"
proof -
  from assms(3) have "\<not> nullish r" using nullish_property by fastforce
  with assms show ?thesis by (auto simp: generator_try_def get_prop_def)
qed

lemma isWorkoutPlan_cases:
  "(\<exists>e. isWorkoutPlan v = Inl e) \<or> isWorkoutPlan v = Inr (JBool True) \<or>
   (\<exists>g. isWorkoutPlan v = Inr g \<and> \<not> truthy g)"
  by (cases "has_key ''workout_plan'' v") (auto simp: isWorkoutPlan_def)

lemma generator_try_Inr:
  assumes "generator_try P G V a = Inr out" and "P a = Inr p" and "G p = Inr r"
  shows "out = JObj [(''success'', JBool False),
                (''message'', if truthy (property r ''message'') then property r ''message''
                              else JStr ''Failed to generate workout plan''),
                (''error'', property r ''error'')] \<or>
         out = invalid_plan \<or>
         (\<exists>wp'. enrich_plan V (property (property r ''data'') ''workout_plan'') = Inr wp' \<and>
           out = JObj [(''success'', JBool True),
                       (''message'', JStr ''Workout plan generated successfully''),
                       (''data'', JObj [(''workout_plan'', wp')])])"
proof -
  have nn: "\<not> nullish r"
    using try_response_nullish[where P = P and G = G and V = V and a = a, OF assms(2,3)] assms(1)
    by fastforce
  show ?thesis
  proof (cases "truthy (property r ''success'')")
    case False
    from try_ai_failure[where P = P and G = G and V = V and a = a, OF assms(2,3) nn False] assms(1)
    show ?thesis by simp
  next
    case ok: True
    show ?thesis
    proof (cases "truthy (property r ''data'') \<and>
        isWorkoutPlan (property r ''data'') = Inr (JBool True) \<and>
        truthy (property (property r ''data'') ''workout_plan'')")
      case True
      with try_validated[where P = P and G = G and V = V and a = a, OF assms(2,3) ok] assms(1)
      show ?thesis
        by (auto split: sum.splits)
    next
      case False
      have "\<exists>e. isWorkoutPlan (property r ''data'') = Inl e \<Longrightarrow> truthy (property r ''data'') \<Longrightarrow> False"
        using assms nn ok by (auto simp: generator_try_def get_prop_def)
      with False isWorkoutPlan_cases[of "property r ''data''"]
      have "\<not> truthy (property r ''data'') \<or>
         (\<exists>g. isWorkoutPlan (property r ''data'') = Inr g \<and> \<not> truthy g) \<or>
         (\<exists>g. isWorkoutPlan (property r ''data'') = Inr g \<and>
              \<not> truthy (property (property r ''data'') ''workout_plan''))"
        by blast
      from try_not_validated[where P = P and G = G and V = V and a = a, OF assms(2,3) ok this] assms(1)
      show ?thesis by simp
    qed
  qed
qed

lemma generator_try_cases:
  "generator_try P G V a = Inr out \<Longrightarrow> \<exists>p r. P a = Inr p \<and> G p = Inr r"
  by (cases "P a"; cases "G (projr (P a))") (auto simp: generator_try_def)

lemma generator_try_flag:
  "generator_try P G V a = Inr out \<Longrightarrow>
     property out ''success'' = JBool True \<or> property out ''success'' = JBool False"
proof -
  assume t: "generator_try P G V a = Inr out"
  from generator_try_cases[OF t] obtain p r where pr: "P a = Inr p" "G p = Inr r" by blast
  from generator_try_Inr[where P = P and G = G and V = V and a = a, OF t pr]
  consider "\<exists>m e. out = JObj [(''success'', JBool False), (''message'', m), (''error'', e)]"
    | "out = invalid_plan"
    | "\<exists>m d. out = JObj [(''success'', JBool True), (''message'', m), (''data'', d)]"
    by blast
  then show ?thesis
    by cases (auto simp: invalid_plan_def property_def)
qed

lemma generator_flag:
  "workoutPlanGenerator P G V a = Inr out \<Longrightarrow>
     property out ''success'' = JBool True \<or> property out ''success'' = JBool False"
  using generator_try_flag[of P G V a out]
  by (auto simp: workoutPlanGenerator_def property_def split: sum.splits)

lemma generator_try_success:
  assumes "generator_try P G V a = Inr out" and "property out ''success'' = JBool True"
    and "P a = Inr prompt" and "G prompt = Inr r"
  shows "\<exists>wp'. enrich_plan V (property (property r ''data'') ''workout_plan'') = Inr wp' \<and>
           out = JObj [(''success'', JBool True),
                       (''message'', JStr ''Workout plan generated successfully''),
                       (''data'', JObj [(''workout_plan'', wp')])]"
proof -
  from generator_try_Inr[where P = P and G = G and V = V and a = a, OF assms(1,3,4)]
  consider "\<exists>m e. out = JObj [(''success'', JBool False), (''message'', m), (''error'', e)]"
    | "out = invalid_plan"
    | "\<exists>wp'. enrich_plan V (property (property r ''data'') ''workout_plan'') = Inr wp' \<and>
           out = JObj [(''success'', JBool True),
                       (''message'', JStr ''Workout plan generated successfully''),
                       (''data'', JObj [(''workout_plan'', wp')])]"
    by blast
  then show ?thesis using assms(2)
    by cases (auto simp: invalid_plan_def property_def)
qed

lemma generator_success:
  assumes "workoutPlanGenerator P G V a = Inr out" and "property out ''success'' = JBool True"
    and "P a = Inr prompt" and "G prompt = Inr r"
  shows "enriched V 0 (plan_exercises (property (property r ''data'') ''workout_plan''))
           (plan_exercises (property (property out ''data'') ''workout_plan''))"
proof -
  from assms(1,2) have t: "generator_try P G V a = Inr out"
    by (auto simp: workoutPlanGenerator_def property_def split: sum.splits)
  from generator_try_success[OF t assms(2-4)] obtain wp' where
    e: "enrich_plan V (property (property r ''data'') ''workout_plan'') = Inr wp'" and
    o: "out = JObj [(''success'', JBool True),
                       (''message'', JStr ''Workout plan generated successfully''),
                       (''data'', JObj [(''workout_plan'', wp')])]" by blast
  from o have "property (property out ''data'') ''workout_plan'' = wp'"
    by (simp add: property_def)
  with enrich_plan_Inr[OF e] show ?thesis by simp
qed

text \<open>
  C3. When plan generation answers \<^verbatim>\<open>success:true\<close>, the returned plan has the exercises
  of the AI client's plan, in the order of the three loops (the days, the warm-up, the
  cool-down), and the \<open>j\<close>-th of them is the client's exercise with \<^verbatim>\<open>gif_url\<close> set to
  what the \<open>j\<close>-th video lookup returned for that exercise's name. If the lookup for any
  of these exercises throws, the answer is \<^verbatim>\<open>success:false\<close>.
\<close>

theorem enrichment_sets_every_gif_url:
  fixes workoutPrompt gemini vid attrs prompt r
  defines "es \<equiv> plan_exercises (property (property r ''data'') ''workout_plan'')"
  assumes "workoutPrompt attrs = Inr prompt" and "gemini prompt = Inr r"
  shows "(\<forall>out. workoutPlanGenerator workoutPrompt gemini vid attrs = Inr out \<and>
               property out ''success'' = JBool True \<longrightarrow>
            length (plan_exercises (property (property out ''data'') ''workout_plan'')) = length es \<and>
            (\<forall>j<length es. \<exists>url.
               vid j (property (es ! j) ''name'') = Inr url \<and>
               set_prop (es ! j) ''gif_url'' url =
                 Inr (plan_exercises (property (property out ''data'') ''workout_plan'') ! j) \<and>
               property (plan_exercises (property (property out ''data'') ''workout_plan'') ! j)
                 ''gif_url'' = url)) \<and>
         (\<forall>j e. j < length es \<and> vid j (property (es ! j) ''name'') = Inl e \<longrightarrow>
            (\<exists>out. workoutPlanGenerator workoutPrompt gemini vid attrs = Inr out \<and>
                   property out ''success'' = JBool False))"
proof (intro conjI allI impI)
  fix out
  assume h: "workoutPlanGenerator workoutPrompt gemini vid attrs = Inr out \<and>
               property out ''success'' = JBool True"
  let ?es' = "plan_exercises (property (property out ''data'') ''workout_plan'')"
  from h have o: "workoutPlanGenerator workoutPrompt gemini vid attrs = Inr out"
    and t: "property out ''success'' = JBool True" by simp_all
  have en: "enriched vid 0 es ?es'"
    unfolding es_def by (rule generator_success[OF o t assms(2,3)])
  then show "length ?es' = length es" by (rule enriched_length)
  fix j assume "j < length es"
  from enriched_nth[OF en this] obtain url where
    u: "vid j (property (es ! j) ''name'') = Inr url"
       "set_prop (es ! j) ''gif_url'' url = Inr (?es' ! j)" by auto
  from set_prop_property[OF u(2)] u
  show "\<exists>url. vid j (property (es ! j) ''name'') = Inr url \<and>
               set_prop (es ! j) ''gif_url'' url = Inr (?es' ! j) \<and>
               property (?es' ! j) ''gif_url'' = url" by blast
next
  fix j e
  assume h: "j < length es \<and> vid j (property (es ! j) ''name'') = Inl e"
  obtain out where o: "workoutPlanGenerator workoutPrompt gemini vid attrs = Inr out"
    using generator_returns by blast
  have "property out ''success'' \<noteq> JBool True"
  proof
    assume t: "property out ''success'' = JBool True"
    have "enriched vid 0 es (plan_exercises (property (property out ''data'') ''workout_plan''))"
      unfolding es_def by (rule generator_success[OF o t assms(2,3)])
    from enriched_nth[OF this, of j] h show False by auto
  qed
  with generator_flag[OF o] o
  show "\<exists>out. workoutPlanGenerator workoutPrompt gemini vid attrs = Inr out \<and>
                   property out ''success'' = JBool False" by blast
qed

text \<open>
  C4. The promise \<^verbatim>\<open>workoutPlanGenerator\<close> returns always resolves. When the AI client's
  response has a falsy \<^verbatim>\<open>success\<close>, the answer is \<^verbatim>\<open>success:false\<close> with the client's
  \<^verbatim>\<open>message\<close> (the default text when that is falsy) and the client's \<^verbatim>\<open>error\<close>. Whatever is
  thrown while the prompt is rendered, the client is called, or the plan is enriched is
  turned into \<^verbatim>\<open>{success:false, message:"Failed to generate workout plan", error}\<close>,
  with the message of the error thrown.
\<close>

theorem generator_never_throws:
  fixes workoutPrompt gemini vid attrs
  defines "failed \<equiv> \<lambda>e. JObj [(''success'', JBool False),
                               (''message'', JStr ''Failed to generate workout plan''),
                               (''error'', JStr (error_message e))]"
  defines "run \<equiv> workoutPlanGenerator workoutPrompt gemini vid attrs"
  shows "(\<exists>out. run = Inr out) \<and>
         (\<forall>prompt r. workoutPrompt attrs = Inr prompt \<and> gemini prompt = Inr r \<and> \<not> nullish r \<and>
              \<not> truthy (property r ''success'') \<longrightarrow>
            run = Inr (JObj [(''success'', JBool False),
                            (''message'', if truthy (property r ''message'')
                                          then property r ''message''
                                          else JStr ''Failed to generate workout plan''),
                            (''error'', property r ''error'')])) \<and>
         (\<forall>e. generator_try workoutPrompt gemini vid attrs = Inl e \<longrightarrow> run = Inr (failed e)) \<and>
         (\<forall>e. workoutPrompt attrs = Inl e \<longrightarrow> run = Inr (failed e)) \<and>
         (\<forall>prompt e. workoutPrompt attrs = Inr prompt \<and> gemini prompt = Inl e \<longrightarrow>
            run = Inr (failed e)) \<and>
         (\<forall>prompt r e. workoutPrompt attrs = Inr prompt \<and> gemini prompt = Inr r \<and>
              truthy (property r ''success'') \<and> truthy (property r ''data'') \<and>
              isWorkoutPlan (property r ''data'') = Inr (JBool True) \<and>
              truthy (property (property r ''data'') ''workout_plan'') \<and>
              enrich_plan vid (property (property r ''data'') ''workout_plan'') = Inl e \<longrightarrow>
            run = Inr (failed e))"
proof (intro conjI allI impI)
  show "\<exists>out. run = Inr out" unfolding run_def by (rule generator_returns)
next
  fix prompt r
  assume "workoutPrompt attrs = Inr prompt \<and> gemini prompt = Inr r \<and> \<not> nullish r \<and>
              \<not> truthy (property r ''success'')"
  then show "run = Inr (JObj [(''success'', JBool False),
                            (''message'', if truthy (property r ''message'')
                                          then property r ''message''
                                          else JStr ''Failed to generate workout plan''),
                            (''error'', property r ''error'')])"
    unfolding run_def by (simp add: workoutPlanGenerator_def try_ai_failure)
next
  fix e assume "generator_try workoutPrompt gemini vid attrs = Inl e"
  then show "run = Inr (failed e)"
    unfolding run_def failed_def by (simp add: workoutPlanGenerator_def)
next
  fix e assume "workoutPrompt attrs = Inl e"
  then show "run = Inr (failed e)"
    unfolding run_def failed_def by (simp add: workoutPlanGenerator_def try_prompt_throws)
next
  fix prompt e assume "workoutPrompt attrs = Inr prompt \<and> gemini prompt = Inl e"
  then show "run = Inr (failed e)"
    unfolding run_def failed_def by (simp add: workoutPlanGenerator_def try_gemini_throws)
next
  fix prompt r e
  assume "workoutPrompt attrs = Inr prompt \<and> gemini prompt = Inr r \<and>
              truthy (property r ''success'') \<and> truthy (property r ''data'') \<and>
              isWorkoutPlan (property r ''data'') = Inr (JBool True) \<and>
              truthy (property (property r ''data'') ''workout_plan'') \<and>
              enrich_plan vid (property (property r ''data'') ''workout_plan'') = Inl e"
  then show "run = Inr (failed e)"
    unfolding run_def failed_def by (simp add: workoutPlanGenerator_def try_validated)
qed


lemmas generator_defs = workoutPlanGenerator_def generator_try_def enrich_plan_def
  enrich_section_def enrich_exercise_def isWorkoutPlan_def invalid_plan_def get_prop_def
  property_def set_field_def plan_exercises_def section_exercises_def Let_def

theorem enrichment_sets_every_gif_url_witness:
  "workoutPlanGenerator (\<lambda>a. Inr ''prompt'')
     (\<lambda>p. Inr (JObj [(''success'', JBool True),
        (''data'', JObj [(''workout_plan'', JObj [
           (''daily_workouts'', JObj [(''Day 1'', JObj [(''exercises'',
               JArr [JObj [(''name'', JStr ''Squat''), (''gif_url'', JStr ''placeholder'')]] [])])]),
           (''warm_up'', JObj [(''exercises'', JArr [JObj [(''name'', JStr ''Jog'')]] [])]),
           (''cool_down'', JObj [(''exercises'', JArr [] [])])])])]))
     (\<lambda>n name. case name of JStr s \<Rightarrow> Inr (JStr (''https://videos/'' @ s))
                  | _ \<Rightarrow> Inl (Error ''no name''))
     \<lparr>fitnessLevel = ''beginner'', fitnessGoal = ''strength'', duration = ''30'',
      daysPerweek = ''3''\<rparr>
   = Inr (JObj [(''success'', JBool True),
        (''message'', JStr ''Workout plan generated successfully''),
        (''data'', JObj [(''workout_plan'', JObj [
           (''daily_workouts'', JObj [(''Day 1'', JObj [(''exercises'',
               JArr [JObj [(''name'', JStr ''Squat''),
                           (''gif_url'', JStr ''https://videos/Squat'')]] [])])]),
           (''warm_up'', JObj [(''exercises'',
               JArr [JObj [(''name'', JStr ''Jog''), (''gif_url'', JStr ''https://videos/Jog'')]] [])]),
           (''cool_down'', JObj [(''exercises'', JArr [] [])])])])]) \<and>
   workoutPlanGenerator (\<lambda>a. Inr ''prompt'')
     (\<lambda>p. Inr (JObj [(''success'', JBool True),
        (''data'', JObj [(''workout_plan'', JObj [
           (''daily_workouts'', JObj [(''Day 1'', JObj [(''exercises'',
               JArr [JObj [(''name'', JStr ''Squat''), (''gif_url'', JStr ''placeholder'')]] [])])]),
           (''warm_up'', JObj [(''exercises'', JArr [JObj [(''title'', JStr ''Jog'')]] [])]),
           (''cool_down'', JObj [(''exercises'', JArr [] [])])])])]))
     (\<lambda>n name. case name of JStr s \<Rightarrow> Inr (JStr (''https://videos/'' @ s))
                  | _ \<Rightarrow> Inl (Error ''no name''))
     \<lparr>fitnessLevel = ''beginner'', fitnessGoal = ''strength'', duration = ''30'',
      daysPerweek = ''3''\<rparr>
   = Inr (JObj [(''success'', JBool False),
        (''message'', JStr ''Failed to generate workout plan''),
        (''error'', JStr ''no name'')])"
  using
    enrichment_sets_every_gif_url
      [where workoutPrompt = "\<lambda>a. Inr ''prompt''" and prompt = "''prompt''"
         and attrs = "\<lparr>fitnessLevel = ''beginner'', fitnessGoal = ''strength'',
                        duration = ''30'', daysPerweek = ''3''\<rparr>"
         and gemini = "\<lambda>p. Inr (JObj [(''success'', JBool True),
        (''data'', JObj [(''workout_plan'', JObj [
           (''daily_workouts'', JObj [(''Day 1'', JObj [(''exercises'',
               JArr [JObj [(''name'', JStr ''Squat''), (''gif_url'', JStr ''placeholder'')]] [])])]),
           (''warm_up'', JObj [(''exercises'', JArr [JObj [(''name'', JStr ''Jog'')]] [])]),
           (''cool_down'', JObj [(''exercises'', JArr [] [])])])])])"
         and r = "JObj [(''success'', JBool True),
        (''data'', JObj [(''workout_plan'', JObj [
           (''daily_workouts'', JObj [(''Day 1'', JObj [(''exercises'',
               JArr [JObj [(''name'', JStr ''Squat''), (''gif_url'', JStr ''placeholder'')]] [])])]),
           (''warm_up'', JObj [(''exercises'', JArr [JObj [(''name'', JStr ''Jog'')]] [])]),
           (''cool_down'', JObj [(''exercises'', JArr [] [])])])])]"
         and vid = "\<lambda>n name. case name of JStr s \<Rightarrow> Inr (JStr (''https://videos/'' @ s))
                  | _ \<Rightarrow> Inl (Error ''no name'')"]
    enrichment_sets_every_gif_url
      [where workoutPrompt = "\<lambda>a. Inr ''prompt''" and prompt = "''prompt''"
         and attrs = "\<lparr>fitnessLevel = ''beginner'', fitnessGoal = ''strength'',
                        duration = ''30'', daysPerweek = ''3''\<rparr>"
         and gemini = "\<lambda>p. Inr (JObj [(''success'', JBool True),
        (''data'', JObj [(''workout_plan'', JObj [
           (''daily_workouts'', JObj [(''Day 1'', JObj [(''exercises'',
               JArr [JObj [(''name'', JStr ''Squat''), (''gif_url'', JStr ''placeholder'')]] [])])]),
           (''warm_up'', JObj [(''exercises'', JArr [JObj [(''title'', JStr ''Jog'')]] [])]),
           (''cool_down'', JObj [(''exercises'', JArr [] [])])])])])"
         and r = "JObj [(''success'', JBool True),
        (''data'', JObj [(''workout_plan'', JObj [
           (''daily_workouts'', JObj [(''Day 1'', JObj [(''exercises'',
               JArr [JObj [(''name'', JStr ''Squat''), (''gif_url'', JStr ''placeholder'')]] [])])]),
           (''warm_up'', JObj [(''exercises'', JArr [JObj [(''title'', JStr ''Jog'')]] [])]),
           (''cool_down'', JObj [(''exercises'', JArr [] [])])])])]"
         and vid = "\<lambda>n name. case name of JStr s \<Rightarrow> Inr (JStr (''https://videos/'' @ s))
                  | _ \<Rightarrow> Inl (Error ''no name'')"]
  by (simp add: generator_defs)

theorem generator_never_throws_witness:
  "workoutPlanGenerator (\<lambda>a. Inr ''prompt'')
     (\<lambda>p. Inr (JObj [(''success'', JBool False), (''message'', JStr ''quota exceeded''),
                      (''error'', JStr ''429'')]))
     (\<lambda>n name. Inr (JStr ''https://videos/1''))
     \<lparr>fitnessLevel = ''beginner'', fitnessGoal = ''strength'', duration = ''30'',
      daysPerweek = ''3''\<rparr>
   = Inr (JObj [(''success'', JBool False), (''message'', JStr ''quota exceeded''),
                (''error'', JStr ''429'')]) \<and>
   workoutPlanGenerator (\<lambda>a. Inr ''prompt'') (\<lambda>p. Inl (Error ''network down''))
     (\<lambda>n name. Inr (JStr ''https://videos/1''))
     \<lparr>fitnessLevel = ''beginner'', fitnessGoal = ''strength'', duration = ''30'',
      daysPerweek = ''3''\<rparr>
   = Inr (JObj [(''success'', JBool False),
                (''message'', JStr ''Failed to generate workout plan''),
                (''error'', JStr ''network down'')]) \<and>
   workoutPlanGenerator (\<lambda>a. Inr ''prompt'')
     (\<lambda>p. Inr (JObj [(''success'', JBool True),
        (''data'', JObj [(''workout_plan'', JObj [
           (''daily_workouts'', JObj []),
           (''warm_up'', JObj [(''exercises'', JArr [JObj [(''name'', JStr ''Jog'')]] [])]),
           (''cool_down'', JObj [(''exercises'', JArr [] [])])])])]))
     (\<lambda>n name. Inl (NonError (JStr ''rate limited'')))
     \<lparr>fitnessLevel = ''beginner'', fitnessGoal = ''strength'', duration = ''30'',
      daysPerweek = ''3''\<rparr>
   = Inr (JObj [(''success'', JBool False),
                (''message'', JStr ''Failed to generate workout plan''),
                (''error'', JStr ''Unknown error occurred'')])"
  using
    generator_never_throws
      [where workoutPrompt = "\<lambda>a. Inr ''prompt''"
         and attrs = "\<lparr>fitnessLevel = ''beginner'', fitnessGoal = ''strength'',
                        duration = ''30'', daysPerweek = ''3''\<rparr>"
         and gemini = "\<lambda>p. Inr (JObj [(''success'', JBool False),
                        (''message'', JStr ''quota exceeded''), (''error'', JStr ''429'')])"
         and vid = "\<lambda>n name. Inr (JStr ''https://videos/1'')"]
    generator_never_throws
      [where workoutPrompt = "\<lambda>a. Inr ''prompt''"
         and attrs = "\<lparr>fitnessLevel = ''beginner'', fitnessGoal = ''strength'',
                        duration = ''30'', daysPerweek = ''3''\<rparr>"
         and gemini = "\<lambda>p. Inl (Error ''network down'')"
         and vid = "\<lambda>n name. Inr (JStr ''https://videos/1'')"]
    generator_never_throws
      [where workoutPrompt = "\<lambda>a. Inr ''prompt''"
         and attrs = "\<lparr>fitnessLevel = ''beginner'', fitnessGoal = ''strength'',
                        duration = ''30'', daysPerweek = ''3''\<rparr>"
         and gemini = "\<lambda>p. Inr (JObj [(''success'', JBool True),
        (''data'', JObj [(''workout_plan'', JObj [
           (''daily_workouts'', JObj []),
           (''warm_up'', JObj [(''exercises'', JArr [JObj [(''name'', JStr ''Jog'')]] [])]),
           (''cool_down'', JObj [(''exercises'', JArr [] [])])])])])"
         and vid = "\<lambda>n name. Inl (NonError (JStr ''rate limited''))"]
  by (simp add: generator_defs)

text \<open>
  C2. A payload whose \<^verbatim>\<open>workout_plan\<close> lacks one of the three sections passes
  \<^verbatim>\<open>isWorkoutPlan\<close>, which only looks for the key \<^verbatim>\<open>workout_plan\<close>. The loops then read
  a property of \<^verbatim>\<open>undefined\<close>, and the answer is the \<^verbatim>\<open>catch\<close> block's
  \<^verbatim>\<open>"Failed to generate workout plan"\<close>, not the validation failure
  \<^verbatim>\<open>"Invalid workout plan data received"\<close>.
\<close>

theorem missing_section_is_not_a_validation_failure:
  "workoutPlanGenerator (\<lambda>a. Inr ''prompt'')
     (\<lambda>p. Inr (JObj [(''success'', JBool True),
        (''data'', JObj [(''workout_plan'', JObj [
           (''daily_workouts'', JObj []),
           (''warm_up'', JObj [(''exercises'', JArr [] [])])])])]))
     (\<lambda>n name. Inr (JStr ''https://videos/1''))
     \<lparr>fitnessLevel = ''beginner'', fitnessGoal = ''strength'', duration = ''30'',
      daysPerweek = ''3''\<rparr>
   = Inr (JObj [(''success'', JBool False),
                (''message'', JStr ''Failed to generate workout plan''),
                (''error'', JStr ''Cannot read properties of undefined or null'')]) \<and>
   workoutPlanGenerator (\<lambda>a. Inr ''prompt'')
     (\<lambda>p. Inr (JObj [(''success'', JBool True),
        (''data'', JObj [(''workout_plan'', JObj [
           (''daily_workouts'', JObj []),
           (''cool_down'', JObj [(''exercises'', JArr [] [])])])])]))
     (\<lambda>n name. Inr (JStr ''https://videos/1''))
     \<lparr>fitnessLevel = ''beginner'', fitnessGoal = ''strength'', duration = ''30'',
      daysPerweek = ''3''\<rparr>
   = Inr (JObj [(''success'', JBool False),
                (''message'', JStr ''Failed to generate workout plan''),
                (''error'', JStr ''Cannot read properties of undefined or null'')]) \<and>
   workoutPlanGenerator (\<lambda>a. Inr ''prompt'')
     (\<lambda>p. Inr (JObj [(''success'', JBool True),
        (''data'', JObj [(''workout_plan'', JObj [
           (''warm_up'', JObj [(''exercises'', JArr [] [])]),
           (''cool_down'', JObj [(''exercises'', JArr [] [])])])])]))
     (\<lambda>n name. Inr (JStr ''https://videos/1''))
     \<lparr>fitnessLevel = ''beginner'', fitnessGoal = ''strength'', duration = ''30'',
      daysPerweek = ''3''\<rparr>
   = Inr (JObj [(''success'', JBool False),
                (''message'', JStr ''Failed to generate workout plan''),
                (''error'', JStr ''Cannot convert undefined or null to object'')]) \<and>
   invalid_plan =
     JObj [(''success'', JBool False), (''message'', JStr ''Invalid workout plan data received''),
           (''error'', JStr ''Missing workout plan data'')]"
  by (simp add: generator_defs)

section \<open>Properties of the admin routes\<close>

lemma delete_password_absent: "\<not> has_password_field (JObj (delete_field ''password'' d))"
  by (simp add: has_password_field_def delete_field_def delete_notin_dom)

lemma error_body_no_password: "\<not> body_has_password (error_body m)"
  by (simp add: body_has_password_def has_password_field_def error_body_def)

lemma server_error_no_password: "\<not> body_has_password (snd server_error)"
  by (simp add: server_error_def error_body_no_password)

lemma stripped_doc_no_password: "\<not> body_has_password (JObj (delete_field ''password'' d))"
  using delete_password_absent by (simp add: body_has_password_def)

lemma set_insert_by_name: "set (insert_by_name le d xs) = insert d (set xs)"
  by (induction xs) auto

lemma set_sort_by_name: "set (sort_by_name le ds) = set ds"
  by (induction ds) (simp_all add: sort_by_name_def set_insert_by_name)

lemma stripped_list_no_password:
  "\<not> body_has_password (JArr (map JObj (sort_by_name le (map (delete_field ''password'') ds))) [])"
  using delete_password_absent
  by (auto simp: body_has_password_def has_password_field_def list_ex_iff set_sort_by_name)

lemma catch_plain_no_password:
  assumes "\<And>x db'. t = (Inr x, db') \<Longrightarrow> \<not> body_has_password (snd x)"
  shows "\<not> body_has_password (snd (fst (catch_plain t)))"
  using assms server_error_no_password
  by (cases t; cases "fst t") (auto simp: catch_plain_def)

lemma catch_zod_no_password:
  assumes "\<And>x db'. t = (Inr x, db') \<Longrightarrow> \<not> body_has_password (snd x)"
  shows "\<not> body_has_password (snd (fst (catch_zod t)))"
  using assms server_error_no_password error_body_no_password
  by (cases t; cases "fst t") (auto simp: catch_zod_def split: caught.splits)

lemma message_body_no_password: "\<not> body_has_password (JObj [(''message'', JStr m)])"
  by (simp add: body_has_password_def has_password_field_def)

lemmas no_password_facts = error_body_no_password stripped_doc_no_password
  stripped_list_no_password message_body_no_password

lemma get_trainers_no_password: "\<not> body_has_password (snd (fst (get_trainers env db)))"
  unfolding get_trainers_def
  by (rule catch_plain_no_password)
     (auto simp: find_sorted_def Let_def no_password_facts split: if_splits)

lemma get_users_no_password: "\<not> body_has_password (snd (fst (get_users env db)))"
  unfolding get_users_def
  by (rule catch_plain_no_password)
     (auto simp: find_sorted_def Let_def no_password_facts split: if_splits)

lemma post_trainers_no_password: "\<not> body_has_password (snd (fst (post_trainers env body db)))"
  unfolding post_trainers_def
  by (rule catch_plain_no_password)
     (auto simp: Let_def no_password_facts split: if_splits prod.splits sum.splits option.splits)

lemma patch_trainer_no_password:
  "\<not> body_has_password (snd (fst (patch_trainer env trainerId body db)))"
  unfolding patch_trainer_def
  by (rule catch_plain_no_password)
     (auto simp: Let_def no_password_facts split: if_splits prod.splits sum.splits option.splits)

lemma delete_trainer_no_password:
  "\<not> body_has_password (snd (fst (delete_trainer env trainerId db)))"
  unfolding delete_trainer_def
  by (rule catch_plain_no_password)
     (auto simp: Let_def no_password_facts split: if_splits prod.splits sum.splits option.splits)

lemma patch_user_role_no_password:
  "\<not> body_has_password (snd (fst (patch_user_role env userId body db)))"
  unfolding patch_user_role_def
  by (rule catch_zod_no_password)
     (auto simp: Let_def no_password_facts split: if_splits prod.splits sum.splits option.splits)

lemma patch_trainer_info_no_password:
  "\<not> body_has_password (snd (fst (patch_trainer_info env trainerId body db)))"
  unfolding patch_trainer_info_def
  by (rule catch_zod_no_password)
     (auto simp: Let_def no_password_facts split: if_splits prod.splits sum.splits option.splits)

text \<open>
  C7. Whatever the request and the stored documents, the body of the response of each
  of the seven admin routes has no field \<^verbatim>\<open>password\<close>, and when the body is a list of
  documents none of them has one.
\<close>

theorem admin_responses_hide_password:
  "\<not> body_has_password (snd (fst (admin_route env req db)))"
  by (cases req)
     (simp_all add: get_trainers_no_password post_trainers_no_password
        patch_trainer_no_password delete_trainer_no_password get_users_no_password
        patch_user_role_no_password patch_trainer_info_no_password)


theorem admin_responses_hide_password_witness:
  "\<not> body_has_password (snd (fst (admin_route
      \<lparr>rejects = (\<lambda>c. False), bcrypt_hash = (\<lambda>v. Inr ''hashed''), fresh_id = JStr ''id9'',
       name_order = (\<lambda>a b. True)\<rparr>
      (PatchUserRole ''u1'' (JObj [(''role'', JStr ''TRAINER'')]))
      \<lparr>users = [[(''_id'', JStr ''u1''), (''name'', JStr ''Al''), (''password'', JStr ''h2''),
                 (''role'', JStr ''USER'')]],
       user_calls = []\<rparr>))) \<and>
   fst (admin_route
      \<lparr>rejects = (\<lambda>c. False), bcrypt_hash = (\<lambda>v. Inr ''hashed''), fresh_id = JStr ''id9'',
       name_order = (\<lambda>a b. True)\<rparr>
      (PatchUserRole ''u1'' (JObj [(''role'', JStr ''TRAINER'')]))
      \<lparr>users = [[(''_id'', JStr ''u1''), (''name'', JStr ''Al''), (''password'', JStr ''h2''),
                 (''role'', JStr ''USER'')]],
       user_calls = []\<rparr>)
   = (200, JObj [(''_id'', JStr ''u1''), (''name'', JStr ''Al''), (''role'', JStr ''TRAINER'')])"
  using admin_responses_hide_password
      [of "\<lparr>rejects = (\<lambda>c. False), bcrypt_hash = (\<lambda>v. Inr ''hashed''), fresh_id = JStr ''id9'',
            name_order = (\<lambda>a b. True)\<rparr>"
          "PatchUserRole ''u1'' (JObj [(''role'', JStr ''TRAINER'')])"
          "\<lparr>users = [[(''_id'', JStr ''u1''), (''name'', JStr ''Al''), (''password'', JStr ''h2''),
                 (''role'', JStr ''USER'')]],
            user_calls = []\<rparr>"]
  by (simp add: patch_user_role_def parse_object_def updateUserRoleSchema_def role_issues_def
        property_def catch_zod_def findById_def user_save_def doc_matches_def set_field_def
        delete_field_def Let_def)

lemma role_schema_rejects:
  assumes "property body ''role'' \<noteq> JStr ''ADMIN''" and "property body ''role'' \<noteq> JStr ''TRAINER''"
    and "property body ''role'' \<noteq> JStr ''USER''"
  shows "\<exists>m. parse_object updateUserRoleSchema body = Inl (ZodError m [])"
proof (cases body)
  case (JObj kvs)
  have "\<exists>m. role_issues (property body ''role'') = [m]"
    using assms by (cases "property body ''role''") (auto simp: role_issues_def)
  then show ?thesis using JObj
    by (auto simp: parse_object_def updateUserRoleSchema_def)
qed (simp_all add: parse_object_def)

text \<open>
  C8. When the \<^verbatim>\<open>role\<close> of the request body is none of \<^verbatim>\<open>ADMIN\<close>, \<^verbatim>\<open>TRAINER\<close>,
  \<^verbatim>\<open>USER\<close>, the schema rejects the body and the handler of
  \<^verbatim>\<open>PATCH /users/:userId/role\<close> answers 400 with the message of the first issue; the
  store comes back as it was, documents and record of calls alike, so no call on the
  model was made.
\<close>

theorem invalid_role_rejected_before_store:
  assumes "property body ''role'' \<noteq> JStr ''ADMIN''" and "property body ''role'' \<noteq> JStr ''TRAINER''"
    and "property body ''role'' \<noteq> JStr ''USER''"
  shows "\<exists>m ms. parse_object updateUserRoleSchema body = Inl (ZodError m ms) \<and>
           patch_user_role env userId body db = ((400, JObj [(''error'', JStr m)]), db)"
proof -
  from role_schema_rejects[OF assms] obtain m where
    "parse_object updateUserRoleSchema body = Inl (ZodError m [])" by blast
  then show ?thesis
    by (simp add: patch_user_role_def catch_zod_def error_body_def)
qed

theorem invalid_role_rejected_before_store_witness:
  "property (JObj [(''role'', JStr ''OWNER'')]) ''role'' \<noteq> JStr ''ADMIN'' \<and>
   property (JObj [(''role'', JStr ''OWNER'')]) ''role'' \<noteq> JStr ''TRAINER'' \<and>
   property (JObj [(''role'', JStr ''OWNER'')]) ''role'' \<noteq> JStr ''USER'' \<and>
   patch_user_role
      \<lparr>rejects = (\<lambda>c. False), bcrypt_hash = (\<lambda>v. Inr ''hashed''), fresh_id = JStr ''id9'',
       name_order = (\<lambda>a b. True)\<rparr>
      ''u1'' (JObj [(''role'', JStr ''OWNER'')])
      \<lparr>users = [[(''_id'', JStr ''u1''), (''name'', JStr ''Al''), (''password'', JStr ''h2''),
                 (''role'', JStr ''USER'')]],
       user_calls = []\<rparr>
   = ((400, JObj [(''error'',
         JStr (''Invalid enum value. Expected '' @ role_options @ '', received '' @ quoted ''OWNER''))]),
      \<lparr>users = [[(''_id'', JStr ''u1''), (''name'', JStr ''Al''), (''password'', JStr ''h2''),
                 (''role'', JStr ''USER'')]],
       user_calls = []\<rparr>)"
  using invalid_role_rejected_before_store
      [of "JObj [(''role'', JStr ''OWNER'')]"
          "\<lparr>rejects = (\<lambda>c. False), bcrypt_hash = (\<lambda>v. Inr ''hashed''), fresh_id = JStr ''id9'',
            name_order = (\<lambda>a b. True)\<rparr>"
          "''u1''"
          "\<lparr>users = [[(''_id'', JStr ''u1''), (''name'', JStr ''Al''), (''password'', JStr ''h2''),
                 (''role'', JStr ''USER'')]],
            user_calls = []\<rparr>"]
  by (simp add: parse_object_def updateUserRoleSchema_def role_issues_def property_def)

lemma first_doc_Some:
  "first_doc flt i ds = Some (j, d) \<Longrightarrow>
     i \<le> j \<and> j < i + length ds \<and> ds ! (j - i) = d \<and> doc_matches flt d"
proof (induction ds arbitrary: i)
  case Nil
  then show ?case by simp
next
  case (Cons a ds)
  show ?case
  proof (cases "doc_matches flt a")
    case True
    with Cons.prems show ?thesis by simp
  next
    case False
    with Cons.prems have "first_doc flt (Suc i) ds = Some (j, d)" by simp
    from Cons.IH[OF this] show ?thesis by (auto simp: nth_Cons' Suc_diff_le)
  qed
qed

lemma map_of_set_field: "map_of (set_field k v t) f = (if f = k then Some v else map_of t f)"
  by (simp add: set_field_def update_conv)

lemma map_of_delete_field: "map_of (delete_field k t) f = (if f = k then None else map_of t f)"
  by (simp add: delete_field_def delete_conv)

lemma skipped_field_kept:
  assumes "f \<in> {''name'', ''specialization'', ''hourlyRate'', ''bio''}"
    and "\<not> truthy (property body f)"
  shows "map_of (apply_trainer_update body trainer) f = map_of trainer f"
  using assms by (auto simp: apply_trainer_update_def Let_def map_of_set_field)

lemma nothing_applied:
  assumes "\<forall>f \<in> {''name'', ''specialization'', ''hourlyRate'', ''bio''}. \<not> truthy (property body f)"
    and "\<not> is_boolean (property body ''isVerified'')"
  shows "apply_trainer_update body trainer = trainer"
  using assms by (simp add: apply_trainer_update_def Let_def)

lemma patch_trainer_found:
  assumes "\<not> nullish body"
    and "\<not> rejects env (UserFindOne [(''_id'', JStr trainerId), (''role'', JStr ''TRAINER'')])"
    and "first_doc [(''_id'', JStr trainerId), (''role'', JStr ''TRAINER'')] 0 (users db) = Some (i, trainer)"
    and "\<not> rejects env (UserSave (apply_trainer_update body trainer))"
  shows "patch_trainer env trainerId body db =
     ((200, JObj (delete_field ''password'' (apply_trainer_update body trainer))),
      \<lparr>users = (users db)[i := apply_trainer_update body trainer],
       user_calls = user_calls db @
         [UserFindOne [(''_id'', JStr trainerId), (''role'', JStr ''TRAINER'')],
          UserSave (apply_trainer_update body trainer)]\<rparr>)"
  using assms
  by (simp add: patch_trainer_def catch_plain_def user_findOne_def user_save_def Let_def)

text \<open>
  C10. \<^verbatim>\<open>PATCH /trainers/:trainerId\<close>, for a trainer that is found and a save that
  succeeds: the answer is 200 with the saved document less its password. A field among
  \<^verbatim>\<open>name\<close>, \<^verbatim>\<open>specialization\<close>, \<^verbatim>\<open>hourlyRate\<close>, \<^verbatim>\<open>bio\<close> whose value in the request is
  falsy (0 and the empty string are) keeps its stored value, in the store and in the
  answer; when all four are falsy and \<^verbatim>\<open>isVerified\<close> is not a boolean, the stored
  documents are unchanged and the answer is the unmodified document less its password.
\<close>

theorem falsy_trainer_fields_are_skipped:
  fixes env trainerId body db i trainer
  defines "flt \<equiv> [(''_id'', JStr trainerId), (''role'', JStr ''TRAINER'')]"
  defines "trainer' \<equiv> apply_trainer_update body trainer"
  defines "res \<equiv> patch_trainer env trainerId body db"
  assumes "\<not> nullish body"
    and "\<not> rejects env (UserFindOne flt)"
    and "first_doc flt 0 (users db) = Some (i, trainer)"
    and "\<not> rejects env (UserSave trainer')"
  shows "\<not> truthy (JNum 0) \<and> \<not> truthy (JStr []) \<and>
         fst res = (200, JObj (delete_field ''password'' trainer')) \<and>
         users (snd res) = (users db)[i := trainer'] \<and>
         (\<forall>f \<in> {''name'', ''specialization'', ''hourlyRate'', ''bio''}.
            \<not> truthy (property body f) \<longrightarrow>
              map_of (users (snd res) ! i) f = map_of trainer f \<and>
              property (snd (fst res)) f = property (JObj trainer) f) \<and>
         ((\<forall>f \<in> {''name'', ''specialization'', ''hourlyRate'', ''bio''}.
             \<not> truthy (property body f)) \<and> \<not> is_boolean (property body ''isVerified'') \<longrightarrow>
            users (snd res) = users db \<and>
            fst res = (200, JObj (delete_field ''password'' trainer)))"
proof -
  have r: "res = ((200, JObj (delete_field ''password'' trainer')),
      \<lparr>users = (users db)[i := trainer'],
       user_calls = user_calls db @ [UserFindOne flt, UserSave trainer']\<rparr>)"
    unfolding res_def trainer'_def flt_def
    using assms(4-7) unfolding flt_def trainer'_def by (rule patch_trainer_found)
  from first_doc_Some[OF assms(6)] have i: "i < length (users db)" "users db ! i = trainer"
    by simp_all
  have 1: "fst res = (200, JObj (delete_field ''password'' trainer'))"
    and 2: "users (snd res) = (users db)[i := trainer']" by (simp_all add: r)
  have 3: "\<forall>f \<in> {''name'', ''specialization'', ''hourlyRate'', ''bio''}.
            \<not> truthy (property body f) \<longrightarrow>
              map_of (users (snd res) ! i) f = map_of trainer f \<and>
              property (snd (fst res)) f = property (JObj trainer) f"
  proof (intro ballI impI)
    fix f assume f: "f \<in> {''name'', ''specialization'', ''hourlyRate'', ''bio''}"
      and t: "\<not> truthy (property body f)"
    from skipped_field_kept[OF f t] have k: "map_of trainer' f = map_of trainer f"
      by (simp add: trainer'_def)
    from f have "f \<noteq> ''password''" by auto
    with k i show "map_of (users (snd res) ! i) f = map_of trainer f \<and>
              property (snd (fst res)) f = property (JObj trainer) f"
      by (simp add: r property_def map_of_delete_field)
  qed
  have 4: "(\<forall>f \<in> {''name'', ''specialization'', ''hourlyRate'', ''bio''}.
             \<not> truthy (property body f)) \<and> \<not> is_boolean (property body ''isVerified'') \<longrightarrow>
            users (snd res) = users db \<and>
            fst res = (200, JObj (delete_field ''password'' trainer))"
  proof
    assume "(\<forall>f \<in> {''name'', ''specialization'', ''hourlyRate'', ''bio''}.
             \<not> truthy (property body f)) \<and> \<not> is_boolean (property body ''isVerified'')"
    then have "trainer' = trainer" unfolding trainer'_def by (intro nothing_applied) simp_all
    moreover from i have "(users db)[i := trainer] = users db"
      by (metis list_update_id)
    ultimately show "users (snd res) = users db \<and>
            fst res = (200, JObj (delete_field ''password'' trainer))"
      by (simp add: r)
  qed
  from 1 2 3 4 show ?thesis by simp
qed

theorem falsy_trainer_fields_are_skipped_witness:
  "\<not> nullish (JObj [(''name'', JStr []), (''hourlyRate'', JNum 0), (''bio'', JStr [])]) \<and>
   first_doc [(''_id'', JStr ''t1''), (''role'', JStr ''TRAINER'')] 0
     [[(''_id'', JStr ''t1''), (''name'', JStr ''Tina''), (''password'', JStr ''h1''),
       (''role'', JStr ''TRAINER''), (''hourlyRate'', JNum 40), (''bio'', JStr ''coach'')]]
   = Some (0, [(''_id'', JStr ''t1''), (''name'', JStr ''Tina''), (''password'', JStr ''h1''),
       (''role'', JStr ''TRAINER''), (''hourlyRate'', JNum 40), (''bio'', JStr ''coach'')]) \<and>
   patch_trainer
      \<lparr>rejects = (\<lambda>c. False), bcrypt_hash = (\<lambda>v. Inr ''hashed''), fresh_id = JStr ''id9'',
       name_order = (\<lambda>a b. True)\<rparr>
      ''t1'' (JObj [(''name'', JStr []), (''hourlyRate'', JNum 0), (''bio'', JStr [])])
      \<lparr>users = [[(''_id'', JStr ''t1''), (''name'', JStr ''Tina''), (''password'', JStr ''h1''),
                 (''role'', JStr ''TRAINER''), (''hourlyRate'', JNum 40), (''bio'', JStr ''coach'')]],
       user_calls = []\<rparr>
   = ((200, JObj [(''_id'', JStr ''t1''), (''name'', JStr ''Tina''), (''role'', JStr ''TRAINER''),
                  (''hourlyRate'', JNum 40), (''bio'', JStr ''coach'')]),
      \<lparr>users = [[(''_id'', JStr ''t1''), (''name'', JStr ''Tina''), (''password'', JStr ''h1''),
                 (''role'', JStr ''TRAINER''), (''hourlyRate'', JNum 40), (''bio'', JStr ''coach'')]],
       user_calls = [UserFindOne [(''_id'', JStr ''t1''), (''role'', JStr ''TRAINER'')],
          UserSave [(''_id'', JStr ''t1''), (''name'', JStr ''Tina''), (''password'', JStr ''h1''),
                 (''role'', JStr ''TRAINER''), (''hourlyRate'', JNum 40), (''bio'', JStr ''coach'')]]\<rparr>)"
  using falsy_trainer_fields_are_skipped
      [where env = "\<lparr>rejects = (\<lambda>c. False), bcrypt_hash = (\<lambda>v. Inr ''hashed''),
                      fresh_id = JStr ''id9'', name_order = (\<lambda>a b. True)\<rparr>"
         and trainerId = "''t1''"
         and body = "JObj [(''name'', JStr []), (''hourlyRate'', JNum 0), (''bio'', JStr [])]"
         and db = "\<lparr>users = [[(''_id'', JStr ''t1''), (''name'', JStr ''Tina''),
                 (''password'', JStr ''h1''), (''role'', JStr ''TRAINER''),
                 (''hourlyRate'', JNum 40), (''bio'', JStr ''coach'')]], user_calls = []\<rparr>"
         and i = 0
         and trainer = "[(''_id'', JStr ''t1''), (''name'', JStr ''Tina''),
                 (''password'', JStr ''h1''), (''role'', JStr ''TRAINER''),
                 (''hourlyRate'', JNum 40), (''bio'', JStr ''coach'')]"]
  by (simp add: patch_trainer_def catch_plain_def user_findOne_def user_save_def Let_def
        apply_trainer_update_def property_def doc_matches_def delete_field_def set_field_def)

end
